theory Spec2Isabelle
  imports Main
begin

section \<open>Property model\<close>

text \<open>
  The value classes of \<open>com.starrocks.sql.optimizer.base\<close> that \<open>ChildPropertyDeriver\<close>
  builds and inspects. A column is its integer id, a table and a partition are their ids;
  the deriver only compares them.
\<close>

type_synonym columnId = int
type_synonym tableId = int
type_synonym partitionId = int
type_synonym groupId = int

text \<open>A \<open>ColumnRefSet\<close> is a set of column ids; \<open>a.contains(b)\<close> holds when every id of \<open>b\<close> is in \<open>a\<close>.\<close>

type_synonym ColumnRefSet = "columnId set"

definition contains :: "ColumnRefSet \<Rightarrow> ColumnRefSet \<Rightarrow> bool" where
  "contains a b = (b \<subseteq> a)"

text \<open>\<open>java.util.List.containsAll\<close>, \<open>indexOf\<close> (-1 when absent) and \<open>get\<close> (which throws out of range).\<close>

datatype error = IllegalStateException | IndexOutOfBoundsException | ClassCastException

definition containsAll :: "'a list \<Rightarrow> 'a list \<Rightarrow> bool" where
  "containsAll xs ys = list_all (\<lambda>y. y \<in> set xs) ys"

fun indexOf :: "'a list \<Rightarrow> 'a \<Rightarrow> int" where
  "indexOf [] x = - 1"
| "indexOf (y # ys) x =
     (if y = x then 0 else (let i = indexOf ys x in if i < 0 then - 1 else i + 1))"

definition getAt :: "'a list \<Rightarrow> int \<Rightarrow> error + 'a" where
  "getAt xs i =
     (if 0 \<le> i \<and> i < int (length xs) then Inr (xs ! nat i) else Inl IndexOutOfBoundsException)"

definition bindE :: "error + 'a \<Rightarrow> ('a \<Rightarrow> error + 'b) \<Rightarrow> error + 'b" where
  "bindE m f = (case m of Inl e \<Rightarrow> Inl e | Inr x \<Rightarrow> f x)"

text \<open>
  Modelled from the spec: the class \<open>HashDistributionDesc\<close> and its enum \<open>SourceType\<close> are
  not among the sources. The spec gives a Hash distribution an ordered column list and a
  source kind (ShuffleJoin, ShuffleAgg or Local), with the invariant that the column list is
  never empty for ShuffleJoin and ShuffleAgg; a broken invariant is a programming error and
  fails fast. The datatype holds the two fields of an object. \<open>newHashDistributionDesc\<close> is
  the constructor \<open>new HashDistributionDesc(columns, sourceType)\<close>: it throws
  \<open>IllegalStateException\<close> on an empty column list of a shuffle kind, so that the deriver
  never builds such a value. Every \<open>new HashDistributionDesc\<close> of the source is a call of
  this function.
\<close>

datatype SourceType = LOCAL | SHUFFLE_AGG | SHUFFLE_JOIN

datatype HashDistributionDesc =
  HashDistributionDesc (getColumns: "columnId list") (getSourceType: SourceType)

definition newHashDistributionDesc ::
  "columnId list \<Rightarrow> SourceType \<Rightarrow> error + HashDistributionDesc" where
  "newHashDistributionDesc columns sourceType =
     (if columns = [] \<and> (sourceType = SHUFFLE_JOIN \<or> sourceType = SHUFFLE_AGG)
      then Inl IllegalStateException
      else Inr (HashDistributionDesc columns sourceType))"

text \<open>
  Modelled from the spec: the classes \<open>DistributionSpec\<close>, \<open>DistributionProperty\<close>,
  \<open>SortProperty\<close> and \<open>PhysicalPropertySet\<close> are not among the sources. The spec gives the
  variants Any, Gather with an optional row limit, Replicated and Hash (columns and source
  kind), and the predicates \<open>isAny\<close>, \<open>isGather\<close>, \<open>isReplicated\<close>, \<open>isShuffle\<close> (any Hash)
  and \<open>isLocal\<close> (a Hash of source kind Local). A \<open>DistributionProperty\<close> only wraps its
  spec and is identified with it.
\<close>

datatype DistributionSpec =
    ANY
  | GATHER "int option"
  | REPLICATED
  | HASH HashDistributionDesc

definition createGatherDistributionSpec :: DistributionSpec where
  "createGatherDistributionSpec = GATHER None"

definition createGatherDistributionSpecLimit :: "int \<Rightarrow> DistributionSpec" where
  "createGatherDistributionSpecLimit limit = GATHER (Some limit)"

definition createReplicatedDistributionSpec :: DistributionSpec where
  "createReplicatedDistributionSpec = REPLICATED"

definition createHashDistributionSpec :: "HashDistributionDesc \<Rightarrow> DistributionSpec" where
  "createHashDistributionSpec desc = HASH desc"

fun isAny :: "DistributionSpec \<Rightarrow> bool" where
  "isAny ANY = True"
| "isAny _ = False"

fun isGather :: "DistributionSpec \<Rightarrow> bool" where
  "isGather (GATHER _) = True"
| "isGather _ = False"


fun isShuffle :: "DistributionSpec \<Rightarrow> bool" where
  "isShuffle (HASH _) = True"
| "isShuffle _ = False"

fun isLocal :: "DistributionSpec \<Rightarrow> bool" where
  "isLocal (HASH desc) = (getSourceType desc = LOCAL)"
| "isLocal _ = False"

text \<open>The cast \<open>(HashDistributionSpec) spec\<close> followed by \<open>getHashDistributionDesc()\<close>.\<close>

fun getHashDistributionDesc :: "DistributionSpec \<Rightarrow> error + HashDistributionDesc" where
  "getHashDistributionDesc (HASH desc) = Inr desc"
| "getHashDistributionDesc _ = Inl ClassCastException"

text \<open>
  Modelled from the spec: the invariant of a Hash distribution, "columns never empty for
  ShuffleJoin/ShuffleAgg", as a predicate on the values that reach the deriver from outside
  (the required property, a scan's own distribution) and on the values it returns.
\<close>

definition validHashDistributionDesc :: "HashDistributionDesc \<Rightarrow> bool" where
  "validHashDistributionDesc desc = (getSourceType desc = LOCAL \<or> getColumns desc \<noteq> [])"

fun validDistributionSpec :: "DistributionSpec \<Rightarrow> bool" where
  "validDistributionSpec (HASH desc) = validHashDistributionDesc desc"
| "validDistributionSpec _ = True"

datatype Ordering =
  Ordering (getColumnRef: columnId) (isAscending: bool) (isNullsFirst: bool)

type_synonym SortProperty = "Ordering list"

record PhysicalPropertySet =
  distributionProperty :: DistributionSpec
  sortProperty :: SortProperty

text \<open>
  Modelled from the spec: the constructors of \<open>PhysicalPropertySet\<close>, which is not among
  the sources. A property set is the pair of a distribution and a sort, and
  \<open>PhysicalPropertySet.EMPTY\<close> is Any with \<open>SortProperty.EMPTY\<close>; a constructor that is
  not given a distribution takes Any, one that is not given a sort takes
  \<open>SortProperty.EMPTY\<close>.
\<close>

definition EMPTY :: PhysicalPropertySet where
  "EMPTY = \<lparr>distributionProperty = ANY, sortProperty = []\<rparr>"

definition newPhysicalPropertySet :: PhysicalPropertySet where
  "newPhysicalPropertySet = \<lparr>distributionProperty = ANY, sortProperty = []\<rparr>"

definition propertySetOfDistribution :: "DistributionSpec \<Rightarrow> PhysicalPropertySet" where
  "propertySetOfDistribution d = \<lparr>distributionProperty = d, sortProperty = []\<rparr>"

definition propertySetOfSort :: "SortProperty \<Rightarrow> PhysicalPropertySet" where
  "propertySetOfSort s = \<lparr>distributionProperty = ANY, sortProperty = s\<rparr>"

definition propertySetOf :: "DistributionSpec \<Rightarrow> SortProperty \<Rightarrow> PhysicalPropertySet" where
  "propertySetOf d s = \<lparr>distributionProperty = d, sortProperty = s\<rparr>"

definition validPropertySet :: "PhysicalPropertySet \<Rightarrow> bool" where
  "validPropertySet p = validDistributionSpec (distributionProperty p)"

text \<open>An alternative is Java's \<open>Pair<PhysicalPropertySet, List<PhysicalPropertySet>>\<close>:
  the output property first, the children's required properties second.\<close>

type_synonym Alternative = "PhysicalPropertySet \<times> PhysicalPropertySet list"

section \<open>Plan view, metadata and operators\<close>

text \<open>A child's logical operator, as far as the deriver reads it.\<close>

record LogicalOperator =
  hasLimit :: bool
  getLimit :: int

text \<open>
  \<open>ExpressionContext\<close>: the children's operators and output columns by index, the number of
  children and the root property's single-instance flag.
\<close>

record ExpressionContext =
  arity :: nat
  getChildOperator :: "nat \<Rightarrow> LogicalOperator"
  getChildOutputColumns :: "nat \<Rightarrow> ColumnRefSet"
  isExecuteInOneInstance :: bool

record LogicalOlapScanOperator =
  scanTableId :: tableId
  scanOutputColumns :: "columnId list"
  scanSelectedPartitionId :: "partitionId list"
  scanDistributionSpec :: HashDistributionDesc

text \<open>
  What a derivation reads from outside the operator: \<open>Config.disable_colocate_join\<close>, the
  session variables, the colocate table index of the catalog and the scan operators that
  the task context collected.
\<close>

record Env =
  disable_colocate_join :: bool
  isDisableColocateJoin :: bool
  getNewPlannerAggStage :: int
  isSameGroup :: "tableId \<Rightarrow> tableId \<Rightarrow> bool"
  getGroup :: "tableId \<Rightarrow> groupId"
  isGroupUnstable :: "groupId \<Rightarrow> bool"
  isColocateTable :: "tableId \<Rightarrow> bool"
  getAllScanOperators :: "LogicalOlapScanOperator list"

datatype JoinOperator =
    INNER_JOIN | LEFT_OUTER_JOIN | LEFT_SEMI_JOIN | LEFT_ANTI_JOIN
  | RIGHT_SEMI_JOIN | RIGHT_ANTI_JOIN | RIGHT_OUTER_JOIN | FULL_OUTER_JOIN
  | CROSS_JOIN | MERGE_JOIN | NULL_AWARE_LEFT_ANTI_JOIN

text \<open>
  Modelled from the spec: the enum \<open>JoinOperator\<close> is not among the sources. The spec speaks
  of cross joins, inner joins, right joins and full-outer joins; a right join is any of the
  three right variants.
\<close>

definition isCrossJoin :: "JoinOperator \<Rightarrow> bool" where
  "isCrossJoin t = (t = CROSS_JOIN)"

definition isInnerJoin :: "JoinOperator \<Rightarrow> bool" where
  "isInnerJoin t = (t = INNER_JOIN)"

definition isRightJoin :: "JoinOperator \<Rightarrow> bool" where
  "isRightJoin t = (t = RIGHT_OUTER_JOIN \<or> t = RIGHT_ANTI_JOIN \<or> t = RIGHT_SEMI_JOIN)"

definition isFullOuterJoin :: "JoinOperator \<Rightarrow> bool" where
  "isFullOuterJoin t = (t = FULL_OUTER_JOIN)"

text \<open>
  Modelled from the spec: \<open>JoinPredicateUtils\<close> and \<open>BinaryPredicateOperator\<close> are not among
  the sources. An equality conjunct between the two children pairs one column of the left
  child's output with one column of the right child's output and is, or is not, a direct
  column-to-column comparison. \<open>getJoinOnPredicatesColumns\<close> fills the two column lists
  "paired by predicate position".
\<close>

datatype BinaryPredicateOperator =
  EqualityPredicate (leftColumn: columnId) (rightColumn: columnId) (columnToColumn: bool)

definition isColumnToColumnBinaryPredicate :: "BinaryPredicateOperator \<Rightarrow> bool" where
  "isColumnToColumnBinaryPredicate p = columnToColumn p"

definition getJoinOnPredicatesColumns ::
  "BinaryPredicateOperator list \<Rightarrow> ColumnRefSet \<Rightarrow> ColumnRefSet \<Rightarrow> columnId list \<times> columnId list" where
  "getJoinOnPredicatesColumns equalOnPredicate leftChildColumns rightChildColumns =
     (map leftColumn equalOnPredicate, map rightColumn equalOnPredicate)"

text \<open>
  The hash join operator. \<open>equalOnPredicate\<close> is the list that \<open>getEqConj\<close> extracts from
  the conjuncts of the join predicate for the two children's output columns; the hint is a
  Java string reference, \<open>None\<close> for null.
\<close>

record PhysicalHashJoinOperator =
  getJoinType :: JoinOperator
  getJoinHint :: "string option"
  equalOnPredicate :: "BinaryPredicateOperator list"

text \<open>\<open>AggType\<close> and \<open>SortPhase\<close> are read through their predicates only.\<close>

record PhysicalHashAggregateOperator =
  aggTypeIsGlobal :: bool
  aggTypeIsLocal :: bool
  aggIsSplit :: bool
  getPartitionByColumns :: "columnId list"

record PhysicalOlapScanOperator =
  getDistributionSpec :: HashDistributionDesc
  getSelectedPartitionId :: "partitionId list"
  getTableId :: tableId

record PhysicalTopNOperator =
  sortPhaseIsFinal :: bool
  topNIsSplit :: bool
  getOrderSpec :: "Ordering list"

text \<open>
  A partition expression of a window is a scalar operator: a column reference, or anything
  else with the columns it uses (on which the cast to \<open>ColumnRefOperator\<close> fails).
\<close>

datatype ScalarOperator = ColumnRefOperator columnId | OtherScalarOperator "columnId list"

record PhysicalWindowOperator =
  getPartitionExpressions :: "ScalarOperator list"
  getOrderByElements :: "Ordering list"

datatype Operator =
    PhysicalHashJoin PhysicalHashJoinOperator
  | PhysicalProject
  | PhysicalHashAggregate PhysicalHashAggregateOperator
  | PhysicalOlapScan PhysicalOlapScanOperator
  | PhysicalTopN PhysicalTopNOperator
  | PhysicalHiveScan
  | PhysicalSchemaScan
  | PhysicalMysqlScan
  | PhysicalEsScan
  | PhysicalAssertOneRow
  | PhysicalAnalytic PhysicalWindowOperator
  | PhysicalUnion
  | PhysicalExcept
  | PhysicalIntersect
  | PhysicalValues
  | PhysicalRepeat
  | PhysicalFilter
  | PhysicalTableFunction
  | OtherOperator

section \<open>ChildPropertyDeriver\<close>

text \<open>
  The deriver keeps the requirement and the list \<open>outputInputProps\<close> in fields; here the
  requirement is an argument and each visitor returns the list it leaves behind, or the
  exception it throws.
\<close>

definition distributeRequirements :: "PhysicalPropertySet \<Rightarrow> PhysicalPropertySet" where
  "distributeRequirements requirements =
     propertySetOfDistribution (distributionProperty requirements)"

definition createLimitGatherProperty :: "int \<Rightarrow> PhysicalPropertySet" where
  "createLimitGatherProperty limit = propertySetOf (createGatherDistributionSpecLimit limit) []"

definition createPropertySetByDistribution :: "DistributionSpec \<Rightarrow> PhysicalPropertySet" where
  "createPropertySetByDistribution distributionSpec = propertySetOfDistribution distributionSpec"

definition createLocalByByHashColumns :: "columnId list \<Rightarrow> error + DistributionSpec" where
  "createLocalByByHashColumns hashColumns =
     bindE (newHashDistributionDesc hashColumns LOCAL)
       (\<lambda>hashDesc. Inr (createHashDistributionSpec hashDesc))"

definition getRequiredLocalDesc :: "PhysicalPropertySet \<Rightarrow> HashDistributionDesc option" where
  "getRequiredLocalDesc requirements =
     (case distributionProperty requirements of
        HASH requireDistributionDesc \<Rightarrow>
          (if getSourceType requireDistributionDesc \<noteq> LOCAL then None
           else Some requireDistributionDesc)
      | _ \<Rightarrow> None)"

text \<open>\<open>String.equalsIgnoreCase\<close> on ASCII strings; a null argument never matches.\<close>

definition toUpperCase :: "char \<Rightarrow> char" where
  "toUpperCase c =
     (let n = (of_char c :: nat) in if 97 \<le> n \<and> n \<le> 122 then char_of (n - 32) else c)"

definition equalsIgnoreCase :: "string \<Rightarrow> string option \<Rightarrow> bool" where
  "equalsIgnoreCase s hint =
     (case hint of None \<Rightarrow> False | Some t \<Rightarrow> map toUpperCase s = map toUpperCase t)"

subsection \<open>Hash join\<close>

definition findLogicalOlapScanOperator ::
  "Env \<Rightarrow> columnId list \<Rightarrow> LogicalOlapScanOperator option" where
  "findLogicalOlapScanOperator env shuffleColumns =
     find (\<lambda>scanOperator. containsAll (scanOutputColumns scanOperator) shuffleColumns)
       (getAllScanOperators env)"

definition tryColocate :: "Env \<Rightarrow> columnId list \<Rightarrow> columnId list \<Rightarrow> error + Alternative list" where
  "tryColocate env leftShuffleColumns rightShuffleColumns =
     (if disable_colocate_join env \<or> isDisableColocateJoin env then Inr []
      else case findLogicalOlapScanOperator env leftShuffleColumns of
        None \<Rightarrow> Inr []
      | Some left \<Rightarrow>
       (case findLogicalOlapScanOperator env rightShuffleColumns of
          None \<Rightarrow> Inr []
        | Some right \<Rightarrow>
          if scanTableId left = scanTableId right
             \<and> \<not> isSameGroup env (scanTableId left) (scanTableId right)
          then
            (if scanSelectedPartitionId left \<noteq> scanSelectedPartitionId right
                \<or> length (scanSelectedPartitionId left) > 1
             then Inr []
             else
               bindE (createLocalByByHashColumns rightShuffleColumns) (\<lambda>rightLocal.
               bindE (createLocalByByHashColumns leftShuffleColumns) (\<lambda>leftLocal.
                 Inr [(EMPTY,
                       [createPropertySetByDistribution leftLocal,
                        createPropertySetByDistribution rightLocal])])))
          else if \<not> isSameGroup env (scanTableId left) (scanTableId right) then Inr []
          else if isGroupUnstable env (getGroup env (scanTableId left)) then Inr []
          else
            (let leftScanColumns = getColumns (scanDistributionSpec left);
                 rightScanColumns = getColumns (scanDistributionSpec right)
             in if length leftScanColumns \<noteq> length rightScanColumns
                then Inl IllegalStateException
                else if \<not> containsAll leftShuffleColumns leftScanColumns then Inr []
                else if \<not> containsAll rightShuffleColumns rightScanColumns then Inr []
                else if \<not> list_all
                          (\<lambda>(leftScanColumnId, rightScanColumnId).
                              indexOf leftShuffleColumns leftScanColumnId
                              = indexOf rightShuffleColumns rightScanColumnId)
                          (zip leftScanColumns rightScanColumns)
                then Inr []
                else
                  bindE (createLocalByByHashColumns rightScanColumns) (\<lambda>rightLocal.
                  bindE (createLocalByByHashColumns leftScanColumns) (\<lambda>leftLocal.
                    Inr [(EMPTY,
                          [createPropertySetByDistribution leftLocal,
                           createPropertySetByDistribution rightLocal])])))))"

text \<open>The loop of \<open>tryBucketShuffle\<close> that collects the right side's columns.\<close>

fun rightBucketShuffleColumns ::
  "columnId list \<Rightarrow> columnId list \<Rightarrow> columnId list \<Rightarrow> error + columnId list" where
  "rightBucketShuffleColumns leftShuffleColumns rightShuffleColumns [] = Inr []"
| "rightBucketShuffleColumns leftShuffleColumns rightShuffleColumns (leftScanColumn # rest) =
     bindE (getAt rightShuffleColumns (indexOf leftShuffleColumns leftScanColumn))
       (\<lambda>c. bindE (rightBucketShuffleColumns leftShuffleColumns rightShuffleColumns rest)
          (\<lambda>cs. Inr (c # cs)))"

definition tryBucketShuffle ::
  "Env \<Rightarrow> PhysicalHashJoinOperator \<Rightarrow> columnId list \<Rightarrow> columnId list
   \<Rightarrow> error + Alternative list" where
  "tryBucketShuffle env node leftShuffleColumns rightShuffleColumns =
     (if isCrossJoin (getJoinType node) then Inr []
      else case findLogicalOlapScanOperator env leftShuffleColumns of
        None \<Rightarrow> Inr []
      | Some left \<Rightarrow>
          if length (scanSelectedPartitionId left) \<noteq> 1 then Inr []
          else
            (let leftScanColumns = getColumns (scanDistributionSpec left)
             in if \<not> containsAll leftShuffleColumns leftScanColumns then Inr []
                else bindE (rightBucketShuffleColumns leftShuffleColumns rightShuffleColumns
                              leftScanColumns)
                  (\<lambda>rightColumns.
                bindE (newHashDistributionDesc rightColumns SHUFFLE_JOIN) (\<lambda>rightDesc.
                bindE (createLocalByByHashColumns leftScanColumns) (\<lambda>leftLocal.
                  Inr [(EMPTY,
                        [createPropertySetByDistribution leftLocal,
                         createPropertySetByDistribution
                           (createHashDistributionSpec rightDesc)])])))))"

text \<open>The two iterations of \<open>visitJoinRequirements\<close>, one per side the required columns come from.\<close>

fun requirementsFromLeft ::
  "PhysicalPropertySet \<Rightarrow> HashDistributionDesc \<Rightarrow> Alternative list \<Rightarrow> error + Alternative list" where
  "requirementsFromLeft requirements requireDistributionDesc [] = Inr []"
| "requirementsFromLeft requirements requireDistributionDesc (outputInputProp # rest) =
     bindE (getAt (snd outputInputProp) 0) (\<lambda>left.
     bindE (getAt (snd outputInputProp) 1) (\<lambda>right.
     bindE
       (if isAny (distributionProperty left)
        then Inr [(distributeRequirements requirements,
                   [distributeRequirements requirements, right])]
        else if isShuffle (distributionProperty left)
        then bindE (getHashDistributionDesc (distributionProperty left)) (\<lambda>desc.
               if getSourceType desc = LOCAL
                  \<and> containsAll (getColumns requireDistributionDesc) (getColumns desc)
               then Inr [(distributeRequirements requirements, snd outputInputProp)]
               else Inr [])
        else Inr [])
       (\<lambda>kept. bindE (requirementsFromLeft requirements requireDistributionDesc rest)
          (\<lambda>result. Inr (kept @ result)))))"

fun requirementsFromRight ::
  "PhysicalPropertySet \<Rightarrow> HashDistributionDesc \<Rightarrow> Alternative list \<Rightarrow> error + Alternative list" where
  "requirementsFromRight requirements requireDistributionDesc [] = Inr []"
| "requirementsFromRight requirements requireDistributionDesc (outputInputProp # rest) =
     bindE (getAt (snd outputInputProp) 1) (\<lambda>right.
     bindE
       (if isShuffle (distributionProperty right)
        then bindE (getHashDistributionDesc (distributionProperty right)) (\<lambda>desc.
               if getSourceType desc = LOCAL
                  \<and> containsAll (getColumns requireDistributionDesc) (getColumns desc)
               then Inr [(distributeRequirements requirements, snd outputInputProp)]
               else Inr [])
        else Inr [])
       (\<lambda>kept. bindE (requirementsFromRight requirements requireDistributionDesc rest)
          (\<lambda>result. Inr (kept @ result))))"

definition visitJoinRequirements ::
  "PhysicalPropertySet \<Rightarrow> ExpressionContext \<Rightarrow> Alternative list \<Rightarrow> error + Alternative list" where
  "visitJoinRequirements requirements context outputInputProps =
     (case getRequiredLocalDesc requirements of
        None \<Rightarrow> Inr outputInputProps
      | Some requireDistributionDesc \<Rightarrow>
         (let requiredLocalColumns = set (getColumns requireDistributionDesc);
              leftChildColumns = getChildOutputColumns context 0;
              rightChildColumns = getChildOutputColumns context 1;
              requiredLocalColumnsFromLeft = contains leftChildColumns requiredLocalColumns;
              requiredLocalColumnsFromRight = contains rightChildColumns requiredLocalColumns
          in if requiredLocalColumnsFromLeft = requiredLocalColumnsFromRight then Inr []
             else if requiredLocalColumnsFromLeft
             then requirementsFromLeft requirements requireDistributionDesc outputInputProps
             else requirementsFromRight requirements requireDistributionDesc outputInputProps))"

text \<open>
  \<open>visitPhysicalHashJoin\<close> from the \<open>checkState\<close> on the two extracted column lists to its
  end: the shuffle, colocate and bucket-shuffle alternatives and the final filtering.
\<close>

definition shuffleJoinStep ::
  "Env \<Rightarrow> PhysicalPropertySet \<Rightarrow> PhysicalHashJoinOperator \<Rightarrow> ExpressionContext
   \<Rightarrow> Alternative list \<Rightarrow> columnId list \<Rightarrow> columnId list \<Rightarrow> error + Alternative list" where
  "shuffleJoinStep env requirements node context outputInputProps
       leftOnPredicateColumns rightOnPredicateColumns =
     (if length leftOnPredicateColumns \<noteq> length rightOnPredicateColumns
      then Inl IllegalStateException
      else
       bindE (newHashDistributionDesc leftOnPredicateColumns SHUFFLE_JOIN) (\<lambda>leftDesc.
       bindE (newHashDistributionDesc rightOnPredicateColumns SHUFFLE_JOIN) (\<lambda>rightDesc.
       (let hint = getJoinHint node;
            leftDistribution = createHashDistributionSpec leftDesc;
            rightDistribution = createHashDistributionSpec rightDesc;
            leftInputProperty = createPropertySetByDistribution leftDistribution;
            rightInputProperty = createPropertySetByDistribution rightDistribution;
            props2 = outputInputProps @ [(EMPTY, [leftInputProperty, rightInputProperty])]
        in if equalsIgnoreCase ''SHUFFLE'' hint
           then visitJoinRequirements requirements context props2
           else if list_ex (\<lambda>p. \<not> isColumnToColumnBinaryPredicate p) (equalOnPredicate node)
           then visitJoinRequirements requirements context props2
           else
             bindE (if \<not> equalsIgnoreCase ''BUCKET'' hint
                    then tryColocate env leftOnPredicateColumns rightOnPredicateColumns
                    else Inr [])
               (\<lambda>colocate.
             bindE (tryBucketShuffle env node leftOnPredicateColumns rightOnPredicateColumns)
               (\<lambda>bucket.
             visitJoinRequirements requirements context (props2 @ colocate @ bucket)))))))"

definition visitPhysicalHashJoin ::
  "Env \<Rightarrow> PhysicalPropertySet \<Rightarrow> PhysicalHashJoinOperator \<Rightarrow> ExpressionContext
   \<Rightarrow> error + Alternative list" where
  "visitPhysicalHashJoin env requirements node context =
     (let hint = getJoinHint node;
          rightBroadcastProperty = propertySetOfDistribution createReplicatedDistributionSpec;
          leftChild = getChildOperator context 0;
          rightChild = getChildOperator context 1
      in if hasLimit leftChild \<or> hasLimit rightChild
         then visitJoinRequirements requirements context
                (if hasLimit leftChild
                 then [(EMPTY, [createLimitGatherProperty (getLimit leftChild),
                                rightBroadcastProperty])]
                 else [(EMPTY, [newPhysicalPropertySet, rightBroadcastProperty])])
         else
          (let outputInputProps = [(EMPTY, [newPhysicalPropertySet, rightBroadcastProperty])];
               leftChildColumns = getChildOutputColumns context 0;
               rightChildColumns = getChildOutputColumns context 1
           in if isCrossJoin (getJoinType node)
                 \<or> NULL_AWARE_LEFT_ANTI_JOIN = getJoinType node
                 \<or> (isInnerJoin (getJoinType node) \<and> equalOnPredicate node = [])
                 \<or> equalsIgnoreCase ''BROADCAST'' hint
              then visitJoinRequirements requirements context outputInputProps
              else
               (case getJoinOnPredicatesColumns (equalOnPredicate node)
                       leftChildColumns rightChildColumns of
                  (leftOnPredicateColumns, rightOnPredicateColumns) \<Rightarrow>
                    shuffleJoinStep env requirements node context
                      (if isRightJoin (getJoinType node) \<or> isFullOuterJoin (getJoinType node)
                          \<or> equalsIgnoreCase ''SHUFFLE'' hint
                       then [] else outputInputProps)
                      leftOnPredicateColumns rightOnPredicateColumns)))"

subsection \<open>Pass-through operators, values and the scans\<close>

definition visitPhysicalProject :: "PhysicalPropertySet \<Rightarrow> Alternative list" where
  "visitPhysicalProject requirements =
     (let outputInputProps =
            [(distributeRequirements requirements, [distributeRequirements requirements])]
      in if getRequiredLocalDesc requirements \<noteq> None then outputInputProps
         else outputInputProps @ [(EMPTY, [EMPTY])])"

definition visitPhysicalRepeat :: "PhysicalPropertySet \<Rightarrow> Alternative list" where
  "visitPhysicalRepeat requirements =
     (if getRequiredLocalDesc requirements \<noteq> None
      then [(distributeRequirements requirements, [distributeRequirements requirements])]
      else [(EMPTY, [EMPTY])])"

definition visitPhysicalFilter :: "PhysicalPropertySet \<Rightarrow> Alternative list" where
  "visitPhysicalFilter requirements =
     (if getRequiredLocalDesc requirements \<noteq> None
      then [(distributeRequirements requirements, [distributeRequirements requirements])]
      else [(EMPTY, [EMPTY])])"

definition visitPhysicalTableFunction :: "PhysicalPropertySet \<Rightarrow> Alternative list" where
  "visitPhysicalTableFunction requirements =
     (if getRequiredLocalDesc requirements \<noteq> None
      then [(distributeRequirements requirements, [distributeRequirements requirements])]
      else [(EMPTY, [EMPTY])])"

definition visitPhysicalValues :: "PhysicalPropertySet \<Rightarrow> Alternative list" where
  "visitPhysicalValues requirements = [(distributeRequirements requirements, [])]"

definition visitPhysicalOlapScan ::
  "Env \<Rightarrow> PhysicalPropertySet \<Rightarrow> PhysicalOlapScanOperator \<Rightarrow> Alternative list" where
  "visitPhysicalOlapScan env requirements node =
     (let hashDistributionSpec = getDistributionSpec node;
          outputInputProps =
            (if length (getSelectedPartitionId node) > 1 \<and> \<not> isColocateTable env (getTableId node)
             then [(EMPTY, [])]
             else [(createPropertySetByDistribution (HASH hashDistributionSpec), [])])
      in case getRequiredLocalDesc requirements of
           None \<Rightarrow> outputInputProps
         | Some requireDistributionDesc \<Rightarrow>
             (if containsAll (getColumns requireDistributionDesc) (getColumns hashDistributionSpec)
              then [(distributeRequirements requirements, [])]
              else []))"

text \<open>The Hive, schema, MySQL and Elasticsearch scans share one body.\<close>

definition visitPhysicalHiveScan :: "PhysicalPropertySet \<Rightarrow> Alternative list" where
  "visitPhysicalHiveScan requirements =
     (if getRequiredLocalDesc requirements \<noteq> None then [] else [(EMPTY, [])])"

definition visitPhysicalSchemaScan :: "PhysicalPropertySet \<Rightarrow> Alternative list" where
  "visitPhysicalSchemaScan requirements =
     (if getRequiredLocalDesc requirements \<noteq> None then [] else [(EMPTY, [])])"

definition visitPhysicalMysqlScan :: "PhysicalPropertySet \<Rightarrow> Alternative list" where
  "visitPhysicalMysqlScan requirements =
     (if getRequiredLocalDesc requirements \<noteq> None then [] else [(EMPTY, [])])"

definition visitPhysicalEsScan :: "PhysicalPropertySet \<Rightarrow> Alternative list" where
  "visitPhysicalEsScan requirements =
     (if getRequiredLocalDesc requirements \<noteq> None then [] else [(EMPTY, [])])"

subsection \<open>Aggregate\<close>

fun aggregateRequirementsLoop ::
  "PhysicalPropertySet \<Rightarrow> HashDistributionDesc \<Rightarrow> Alternative list \<Rightarrow> error + Alternative list" where
  "aggregateRequirementsLoop requirements requireDistributionDesc [] = Inr []"
| "aggregateRequirementsLoop requirements requireDistributionDesc (outputInputProp # rest) =
     bindE (getAt (snd outputInputProp) 0) (\<lambda>input.
     bindE
       (if isAny (distributionProperty input)
        then Inr [(distributeRequirements requirements, [distributeRequirements requirements])]
        else if isShuffle (distributionProperty input)
        then bindE (getHashDistributionDesc (distributionProperty (fst outputInputProp)))
               (\<lambda>outputDesc.
             bindE (getHashDistributionDesc (distributionProperty input)) (\<lambda>inputDesc.
               if getSourceType outputDesc = LOCAL \<and> getSourceType inputDesc = LOCAL
                  \<and> containsAll (getColumns requireDistributionDesc) (getColumns inputDesc)
               then Inr [(distributeRequirements requirements, snd outputInputProp)]
               else Inr []))
        else Inr [])
       (\<lambda>kept. bindE (aggregateRequirementsLoop requirements requireDistributionDesc rest)
          (\<lambda>result. Inr (kept @ result))))"

definition visitAggregateRequirements ::
  "PhysicalPropertySet \<Rightarrow> Alternative list \<Rightarrow> error + Alternative list" where
  "visitAggregateRequirements requirements outputInputProps =
     (case getRequiredLocalDesc requirements of
        None \<Rightarrow> Inr outputInputProps
      | Some requireDistributionDesc \<Rightarrow>
          aggregateRequirementsLoop requirements requireDistributionDesc outputInputProps)"

definition visitPhysicalHashAggregate ::
  "Env \<Rightarrow> PhysicalPropertySet \<Rightarrow> PhysicalHashAggregateOperator \<Rightarrow> ExpressionContext
   \<Rightarrow> error + Alternative list" where
  "visitPhysicalHashAggregate env requirements node context =
     (if getNewPlannerAggStage env = 0 \<and> isExecuteInOneInstance context
         \<and> aggTypeIsGlobal node \<and> \<not> aggIsSplit node
      then visitAggregateRequirements requirements [(EMPTY, [EMPTY])]
      else
       (let child = getChildOperator context 0
        in if hasLimit child \<and> (aggTypeIsGlobal node \<and> \<not> aggIsSplit node)
           then visitAggregateRequirements requirements
                  [(EMPTY, [createLimitGatherProperty (getLimit child)])]
           else if \<not> aggTypeIsLocal node
           then
            (let columns = getPartitionByColumns node
             in if columns = []
                then visitAggregateRequirements requirements
                       [(propertySetOfDistribution createGatherDistributionSpec,
                         [propertySetOfDistribution createGatherDistributionSpec])]
                else
                 bindE (newHashDistributionDesc columns SHUFFLE_AGG) (\<lambda>shuffleDesc.
                 bindE (newHashDistributionDesc columns LOCAL) (\<lambda>localDesc.
                 (let distributionProperty = createHashDistributionSpec shuffleDesc;
                      localProperty = createHashDistributionSpec localDesc
                  in visitAggregateRequirements requirements
                       [(propertySetOfDistribution distributionProperty,
                         [propertySetOfDistribution distributionProperty]),
                        (propertySetOfDistribution localProperty,
                         [propertySetOfDistribution localProperty])]))))
           else visitAggregateRequirements requirements [(EMPTY, [EMPTY])]))"

subsection \<open>Top-N, assert-one-row, window and set operations\<close>

definition visitPhysicalTopN ::
  "PhysicalPropertySet \<Rightarrow> PhysicalTopNOperator \<Rightarrow> ExpressionContext \<Rightarrow> Alternative list" where
  "visitPhysicalTopN requirements topN context =
     (if getRequiredLocalDesc requirements \<noteq> None then []
      else
       (let outputProperty =
              (if sortPhaseIsFinal topN
               then (if topNIsSplit topN
                     then propertySetOf createGatherDistributionSpec (getOrderSpec topN)
                     else propertySetOfSort (getOrderSpec topN))
               else newPhysicalPropertySet);
            child = getChildOperator context 0
        in if hasLimit child \<and> (sortPhaseIsFinal topN \<and> \<not> topNIsSplit topN)
           then [(outputProperty, [createLimitGatherProperty (getLimit child)])]
           else [(outputProperty, [EMPTY])]))"

definition visitPhysicalAssertOneRow :: "PhysicalPropertySet \<Rightarrow> Alternative list" where
  "visitPhysicalAssertOneRow requirements =
     (if getRequiredLocalDesc requirements \<noteq> None then []
      else [(EMPTY, [propertySetOfDistribution createGatherDistributionSpec])])"

text \<open>
  The first loop of \<open>visitPhysicalAnalytic\<close>: the partition columns and one ascending,
  nulls-first ordering for each partition expression.
\<close>

fun partitionOrderings ::
  "ScalarOperator list \<Rightarrow> error + (columnId list \<times> Ordering list)" where
  "partitionOrderings [] = Inr ([], [])"
| "partitionOrderings (OtherScalarOperator usedColumns # es) = Inl ClassCastException"
| "partitionOrderings (ColumnRefOperator c # es) =
     bindE (partitionOrderings es) (\<lambda>(cols, orderings).
       Inr (c # cols, Ordering c True True # orderings))"

text \<open>The second loop: an order-by element is added unless its column is already there.\<close>

fun addOrderByElements :: "Ordering list \<Rightarrow> Ordering list \<Rightarrow> Ordering list" where
  "addOrderByElements orderings [] = orderings"
| "addOrderByElements orderings (ord # rest) =
     addOrderByElements
       (if list_all (\<lambda>ordering. getColumnRef ordering \<noteq> getColumnRef ord) orderings
        then orderings @ [ord] else orderings)
       rest"

definition visitPhysicalAnalytic ::
  "PhysicalPropertySet \<Rightarrow> PhysicalWindowOperator \<Rightarrow> error + Alternative list" where
  "visitPhysicalAnalytic requirements node =
     bindE (partitionOrderings (getPartitionExpressions node))
       (\<lambda>(partitionColumnRefSet, partitionOrds).
         (let sortProperty = addOrderByElements partitionOrds (getOrderByElements node)
          in case getRequiredLocalDesc requirements of
               Some required \<Rightarrow>
                 (if partitionColumnRefSet \<noteq> []
                     \<and> containsAll (getColumns required) partitionColumnRefSet
                  then
                    bindE (newHashDistributionDesc partitionColumnRefSet LOCAL) (\<lambda>localDesc.
                    (let localProperty = createHashDistributionSpec localDesc
                     in Inr [(propertySetOf localProperty sortProperty,
                              [propertySetOf localProperty sortProperty])]))
                  else Inr [])
             | None \<Rightarrow>
                 (if partitionColumnRefSet = []
                  then Inr [(propertySetOf createGatherDistributionSpec sortProperty,
                             [propertySetOf createGatherDistributionSpec sortProperty])]
                  else
                    bindE (newHashDistributionDesc partitionColumnRefSet SHUFFLE_AGG)
                      (\<lambda>shuffleDesc.
                    bindE (newHashDistributionDesc partitionColumnRefSet LOCAL) (\<lambda>localDesc.
                    (let distributionProperty = createHashDistributionSpec shuffleDesc;
                         localProperty = createHashDistributionSpec localDesc
                     in Inr [(propertySetOf distributionProperty sortProperty,
                              [propertySetOf distributionProperty sortProperty]),
                             (propertySetOf localProperty sortProperty,
                              [propertySetOf localProperty sortProperty])]))))))"

definition processSetOperationChildProperty ::
  "PhysicalPropertySet \<Rightarrow> ExpressionContext \<Rightarrow> Alternative list" where
  "processSetOperationChildProperty requirements context =
     (if getRequiredLocalDesc requirements \<noteq> None then []
      else [(EMPTY,
             map (\<lambda>i. let child = getChildOperator context i
                      in if hasLimit child then createLimitGatherProperty (getLimit child)
                         else EMPTY)
               [0 ..< arity context])])"

subsection \<open>The entry point\<close>

text \<open>
  \<open>getOutputInputProps\<close> starts from the empty list and dispatches on the operator; an
  operator without a visitor of its own leaves the list empty.
\<close>

definition getOutputInputProps ::
  "Env \<Rightarrow> PhysicalPropertySet \<Rightarrow> Operator \<Rightarrow> ExpressionContext \<Rightarrow> error + Alternative list" where
  "getOutputInputProps env requirements op context =
     (case op of
        PhysicalHashJoin node \<Rightarrow> visitPhysicalHashJoin env requirements node context
      | PhysicalProject \<Rightarrow> Inr (visitPhysicalProject requirements)
      | PhysicalHashAggregate node \<Rightarrow> visitPhysicalHashAggregate env requirements node context
      | PhysicalOlapScan node \<Rightarrow> Inr (visitPhysicalOlapScan env requirements node)
      | PhysicalTopN topN \<Rightarrow> Inr (visitPhysicalTopN requirements topN context)
      | PhysicalHiveScan \<Rightarrow> Inr (visitPhysicalHiveScan requirements)
      | PhysicalSchemaScan \<Rightarrow> Inr (visitPhysicalSchemaScan requirements)
      | PhysicalMysqlScan \<Rightarrow> Inr (visitPhysicalMysqlScan requirements)
      | PhysicalEsScan \<Rightarrow> Inr (visitPhysicalEsScan requirements)
      | PhysicalAssertOneRow \<Rightarrow> Inr (visitPhysicalAssertOneRow requirements)
      | PhysicalAnalytic node \<Rightarrow> visitPhysicalAnalytic requirements node
      | PhysicalUnion \<Rightarrow> Inr (processSetOperationChildProperty requirements context)
      | PhysicalExcept \<Rightarrow> Inr (processSetOperationChildProperty requirements context)
      | PhysicalIntersect \<Rightarrow> Inr (processSetOperationChildProperty requirements context)
      | PhysicalValues \<Rightarrow> Inr (visitPhysicalValues requirements)
      | PhysicalRepeat \<Rightarrow> Inr (visitPhysicalRepeat requirements)
      | PhysicalFilter \<Rightarrow> Inr (visitPhysicalFilter requirements)
      | PhysicalTableFunction \<Rightarrow> Inr (visitPhysicalTableFunction requirements)
      | OtherOperator \<Rightarrow> Inr [])"

section \<open>Concrete inputs\<close>

text \<open>
  Small plans on which the derivation is run: a catalog without colocation, one OLAP scan of
  table 1 with output columns 1 and 2, bucketed on column 1, with one selected partition; a
  join of a left child with output columns 1 and 2 and a right child with output column 10;
  aggregates without and with grouping columns; a window partitioned by column 1.
\<close>

definition exampleEnv :: Env where
  "exampleEnv = \<lparr>disable_colocate_join = False, isDisableColocateJoin = False,
     getNewPlannerAggStage = 0, isSameGroup = (\<lambda>a b. False), getGroup = (\<lambda>t. 0),
     isGroupUnstable = (\<lambda>g. False), isColocateTable = (\<lambda>t. False),
     getAllScanOperators = []\<rparr>"

definition exampleScan :: LogicalOlapScanOperator where
  "exampleScan = \<lparr>scanTableId = 1, scanOutputColumns = [1, 2],
     scanSelectedPartitionId = [100], scanDistributionSpec = HashDistributionDesc [1] LOCAL\<rparr>"

definition exampleEnvWithScan :: Env where
  "exampleEnvWithScan = exampleEnv\<lparr>getAllScanOperators := [exampleScan]\<rparr>"

definition childWithoutLimit :: LogicalOperator where
  "childWithoutLimit = \<lparr>hasLimit = False, getLimit = - 1\<rparr>"

definition childWithLimit10 :: LogicalOperator where
  "childWithLimit10 = \<lparr>hasLimit = True, getLimit = 10\<rparr>"

definition exampleJoinContext :: ExpressionContext where
  "exampleJoinContext = \<lparr>arity = 2, getChildOperator = (\<lambda>i. childWithoutLimit),
     getChildOutputColumns = (\<lambda>i. if i = 0 then {1, 2} else {10}),
     isExecuteInOneInstance = False\<rparr>"

definition exampleJoinContextLeftLimit :: ExpressionContext where
  "exampleJoinContextLeftLimit = exampleJoinContext
     \<lparr>getChildOperator := (\<lambda>i. if i = 0 then childWithLimit10 else childWithoutLimit)\<rparr>"

definition exampleInnerJoin :: PhysicalHashJoinOperator where
  "exampleInnerJoin = \<lparr>getJoinType = INNER_JOIN, getJoinHint = None,
     equalOnPredicate = [EqualityPredicate 1 10 True]\<rparr>"

definition exampleLocalRequirement :: PhysicalPropertySet where
  "exampleLocalRequirement =
     \<lparr>distributionProperty = HASH (HashDistributionDesc [1, 2] LOCAL), sortProperty = []\<rparr>"



definition exampleUnaryContext :: ExpressionContext where
  "exampleUnaryContext = \<lparr>arity = 1, getChildOperator = (\<lambda>i. childWithoutLimit),
     getChildOutputColumns = (\<lambda>i. {1, 2}), isExecuteInOneInstance = False\<rparr>"

definition exampleUnaryContextChildLimit :: ExpressionContext where
  "exampleUnaryContextChildLimit = exampleUnaryContext\<lparr>getChildOperator := (\<lambda>i. childWithLimit10)\<rparr>"

definition exampleScalarGlobalAggregate :: PhysicalHashAggregateOperator where
  "exampleScalarGlobalAggregate = \<lparr>aggTypeIsGlobal = True, aggTypeIsLocal = False,
     aggIsSplit = False, getPartitionByColumns = []\<rparr>"

definition exampleScalarLocalAggregate :: PhysicalHashAggregateOperator where
  "exampleScalarLocalAggregate = \<lparr>aggTypeIsGlobal = False, aggTypeIsLocal = True,
     aggIsSplit = True, getPartitionByColumns = []\<rparr>"

definition exampleGroupingAggregate :: PhysicalHashAggregateOperator where
  "exampleGroupingAggregate = \<lparr>aggTypeIsGlobal = True, aggTypeIsLocal = False,
     aggIsSplit = False, getPartitionByColumns = [1]\<rparr>"

definition exampleSortedGatherRequirement :: PhysicalPropertySet where
  "exampleSortedGatherRequirement =
     \<lparr>distributionProperty = GATHER None, sortProperty = [Ordering 1 True True]\<rparr>"

definition exampleWindow :: PhysicalWindowOperator where
  "exampleWindow = \<lparr>getPartitionExpressions = [ColumnRefOperator 1],
     getOrderByElements = [Ordering 1 False False, Ordering 2 False False]\<rparr>"

section \<open>Auxiliary facts\<close>

lemmas model_defs = getOutputInputProps_def visitPhysicalHashJoin_def shuffleJoinStep_def
  visitJoinRequirements_def tryColocate_def tryBucketShuffle_def findLogicalOlapScanOperator_def
  getJoinOnPredicatesColumns_def getRequiredLocalDesc_def distributeRequirements_def
  createLimitGatherProperty_def createPropertySetByDistribution_def createLocalByByHashColumns_def
  newHashDistributionDesc_def
  createHashDistributionSpec_def createGatherDistributionSpec_def createGatherDistributionSpecLimit_def
  createReplicatedDistributionSpec_def propertySetOfDistribution_def propertySetOf_def
  propertySetOfSort_def newPhysicalPropertySet_def EMPTY_def contains_def containsAll_def
  isCrossJoin_def isInnerJoin_def isRightJoin_def isFullOuterJoin_def equalsIgnoreCase_def
  isColumnToColumnBinaryPredicate_def getAt_def bindE_def Let_def

lemmas aggregate_defs = visitPhysicalHashAggregate_def visitAggregateRequirements_def
  EMPTY_def createLimitGatherProperty_def propertySetOf_def propertySetOfDistribution_def
  createGatherDistributionSpec_def createGatherDistributionSpecLimit_def
  createHashDistributionSpec_def newHashDistributionDesc_def Let_def

lemmas passthrough_defs = visitPhysicalProject_def visitPhysicalRepeat_def visitPhysicalFilter_def
  visitPhysicalTableFunction_def visitPhysicalValues_def

lemmas leaf_defs = visitPhysicalOlapScan_def visitPhysicalHiveScan_def visitPhysicalSchemaScan_def
  visitPhysicalMysqlScan_def visitPhysicalEsScan_def visitPhysicalTopN_def
  visitPhysicalAssertOneRow_def

lemma bindE_Inr_iff: "bindE m f = Inr y \<longleftrightarrow> (\<exists>x. m = Inr x \<and> f x = Inr y)"
  by (cases m) (simp_all add: bindE_def)

lemma bindE_Inr [simp]: "bindE (Inr x) f = f x"
  by (simp add: bindE_def)

lemma bindE_Inl [simp]: "bindE (Inl e) f = Inl e"
  by (simp add: bindE_def)

lemma getAt_pair [simp]: "getAt [a, b] 0 = Inr a" "getAt [a, b] 1 = Inr b"
  by (simp_all add: getAt_def)

lemma getAt_single [simp]: "getAt [a] 0 = Inr a"
  by (simp add: getAt_def)

lemma containsAll_subset: "containsAll xs ys \<longleftrightarrow> set ys \<subseteq> set xs"
  by (auto simp: containsAll_def list_all_iff)

lemma getRequiredLocalDesc_Some:
  "getRequiredLocalDesc req = Some d \<longleftrightarrow> distributionProperty req = HASH d \<and> getSourceType d = LOCAL"
  by (auto simp: getRequiredLocalDesc_def split: DistributionSpec.splits if_splits)

lemma getRequiredLocalDesc_None:
  "getRequiredLocalDesc req = None \<longleftrightarrow> \<not> isLocal (distributionProperty req)"
  by (cases "distributionProperty req") (auto simp: getRequiredLocalDesc_def)

lemma distributeRequirements_simps [simp]:
  "distributionProperty (distributeRequirements req) = distributionProperty req"
  "sortProperty (distributeRequirements req) = []"
  by (simp_all add: distributeRequirements_def propertySetOfDistribution_def)

lemma newHashDistributionDesc_LOCAL [simp]:
  "newHashDistributionDesc cols LOCAL = Inr (HashDistributionDesc cols LOCAL)"
  by (simp add: newHashDistributionDesc_def)

lemma newHashDistributionDesc_nonempty:
  "cols \<noteq> [] \<Longrightarrow> newHashDistributionDesc cols st = Inr (HashDistributionDesc cols st)"
  by (simp add: newHashDistributionDesc_def)

lemma newHashDistributionDesc_empty_shuffle [simp]:
  "newHashDistributionDesc [] SHUFFLE_JOIN = Inl IllegalStateException"
  "newHashDistributionDesc [] SHUFFLE_AGG = Inl IllegalStateException"
  by (simp_all add: newHashDistributionDesc_def)

lemma newHashDistributionDesc_Inl:
  "newHashDistributionDesc cols st = Inl e \<Longrightarrow> e = IllegalStateException \<and> cols = []"
  by (simp add: newHashDistributionDesc_def split: if_splits)

lemma newHashDistributionDesc_Inr:
  "newHashDistributionDesc cols st = Inr d \<Longrightarrow> d = HashDistributionDesc cols st"
  by (simp add: newHashDistributionDesc_def split: if_splits)

lemma newHashDistributionDesc_valid:
  "newHashDistributionDesc cols st = Inr d \<Longrightarrow> validHashDistributionDesc d"
  by (cases st) (auto simp: newHashDistributionDesc_def validHashDistributionDesc_def
      split: if_splits)

lemma validPropertySet_new:
  "newHashDistributionDesc cols st = Inr d \<Longrightarrow>
   validPropertySet \<lparr>distributionProperty = HASH d, sortProperty = s\<rparr>"
  by (simp add: validPropertySet_def newHashDistributionDesc_valid)

lemma validPropertySet_simps [simp]:
  "validPropertySet \<lparr>distributionProperty = ANY, sortProperty = s\<rparr>"
  "validPropertySet \<lparr>distributionProperty = GATHER g, sortProperty = s\<rparr>"
  "validPropertySet \<lparr>distributionProperty = REPLICATED, sortProperty = s\<rparr>"
  "validPropertySet \<lparr>distributionProperty = HASH (HashDistributionDesc cols LOCAL), sortProperty = s\<rparr>"
  "cols \<noteq> [] \<Longrightarrow>
     validPropertySet \<lparr>distributionProperty = HASH (HashDistributionDesc cols st), sortProperty = s\<rparr>"
  by (simp_all add: validPropertySet_def validHashDistributionDesc_def)

lemma createLocalByByHashColumns_eq [simp]:
  "createLocalByByHashColumns cols = Inr (HASH (HashDistributionDesc cols LOCAL))"
  by (simp add: createLocalByByHashColumns_def createHashDistributionSpec_def bindE_def)

lemma requirementsFromLeft_mem:
  "requirementsFromLeft req d props = Inr res \<Longrightarrow> a \<in> set res \<Longrightarrow>
   \<exists>p \<in> set props. \<exists>left right. getAt (snd p) 0 = Inr left \<and> getAt (snd p) 1 = Inr right \<and>
     ((isAny (distributionProperty left)
         \<and> a = (distributeRequirements req, [distributeRequirements req, right]))
      \<or> (\<exists>desc. distributionProperty left = HASH desc \<and> getSourceType desc = LOCAL
            \<and> containsAll (getColumns d) (getColumns desc)
            \<and> a = (distributeRequirements req, snd p)))"
proof (induction props arbitrary: res)
  case Nil
  then show ?case by simp
next
  case (Cons p ps)
  from Cons.prems(1) obtain left right kept result where
    l: "getAt (snd p) 0 = Inr left" and r: "getAt (snd p) 1 = Inr right"
    and k: "(if isAny (distributionProperty left)
        then Inr [(distributeRequirements req, [distributeRequirements req, right])]
        else if isShuffle (distributionProperty left)
        then bindE (getHashDistributionDesc (distributionProperty left)) (\<lambda>desc.
               if getSourceType desc = LOCAL \<and> containsAll (getColumns d) (getColumns desc)
               then Inr [(distributeRequirements req, snd p)]
               else Inr [])
        else Inr []) = Inr kept"
    and rest: "requirementsFromLeft req d ps = Inr result" and res: "res = kept @ result"
    by (auto simp: bindE_Inr_iff)
  from Cons.prems(2) res consider "a \<in> set kept" | "a \<in> set result" by auto
  then show ?case
  proof cases
    case 1
    with k l r show ?thesis
      by (cases "distributionProperty left") (auto split: if_splits)
  next
    case 2
    from Cons.IH [OF rest 2] show ?thesis by auto
  qed
qed

lemma requirementsFromRight_mem:
  "requirementsFromRight req d props = Inr res \<Longrightarrow> a \<in> set res \<Longrightarrow>
   \<exists>p \<in> set props. \<exists>right desc. getAt (snd p) 1 = Inr right \<and>
     distributionProperty right = HASH desc \<and> getSourceType desc = LOCAL
       \<and> containsAll (getColumns d) (getColumns desc)
       \<and> a = (distributeRequirements req, snd p)"
proof (induction props arbitrary: res)
  case Nil
  then show ?case by simp
next
  case (Cons p ps)
  from Cons.prems(1) obtain right kept result where
    r: "getAt (snd p) 1 = Inr right"
    and k: "(if isShuffle (distributionProperty right)
        then bindE (getHashDistributionDesc (distributionProperty right)) (\<lambda>desc.
               if getSourceType desc = LOCAL \<and> containsAll (getColumns d) (getColumns desc)
               then Inr [(distributeRequirements req, snd p)]
               else Inr [])
        else Inr []) = Inr kept"
    and rest: "requirementsFromRight req d ps = Inr result" and res: "res = kept @ result"
    by (auto simp: bindE_Inr_iff)
  from Cons.prems(2) res consider "a \<in> set kept" | "a \<in> set result" by auto
  then show ?case
  proof cases
    case 1
    with k r show ?thesis
      by (cases "distributionProperty right") (auto split: if_splits)
  next
    case 2
    from Cons.IH [OF rest 2] show ?thesis by auto
  qed
qed

lemma visitJoinRequirements_ambiguous:
  "getRequiredLocalDesc req = Some d \<Longrightarrow>
   contains (getChildOutputColumns ctx 0) (set (getColumns d))
     = contains (getChildOutputColumns ctx 1) (set (getColumns d)) \<Longrightarrow>
   visitJoinRequirements req ctx props = Inr []"
  by (simp add: visitJoinRequirements_def Let_def)

lemma visitJoinRequirements_none:
  "getRequiredLocalDesc req = None \<Longrightarrow> visitJoinRequirements req ctx props = Inr props"
  by (simp add: visitJoinRequirements_def)

lemma visitJoinRequirements_left:
  assumes "getRequiredLocalDesc req = Some d"
    and "contains (getChildOutputColumns ctx 0) (set (getColumns d))"
    and "\<not> contains (getChildOutputColumns ctx 1) (set (getColumns d))"
    and "visitJoinRequirements req ctx props = Inr res" and "a \<in> set res"
  shows "fst a = distributeRequirements req \<and>
    (\<exists>left cols. getAt (snd a) 0 = Inr left
       \<and> distributionProperty left = HASH (HashDistributionDesc cols LOCAL)
       \<and> set cols \<subseteq> set (getColumns d))"
proof -
  from assms have "requirementsFromLeft req d props = Inr res"
    by (simp add: visitJoinRequirements_def Let_def)
  from requirementsFromLeft_mem [OF this assms(5)] obtain p left right where
    p: "p \<in> set props" "getAt (snd p) 0 = Inr left" "getAt (snd p) 1 = Inr right"
    and c: "(isAny (distributionProperty left)
         \<and> a = (distributeRequirements req, [distributeRequirements req, right]))
      \<or> (\<exists>desc. distributionProperty left = HASH desc \<and> getSourceType desc = LOCAL
            \<and> containsAll (getColumns d) (getColumns desc)
            \<and> a = (distributeRequirements req, snd p))"
    by blast
  from assms(1) have d: "distributionProperty req = HASH d" "getSourceType d = LOCAL"
    by (simp_all add: getRequiredLocalDesc_Some)
  from c show ?thesis
  proof
    assume "isAny (distributionProperty left)
         \<and> a = (distributeRequirements req, [distributeRequirements req, right])"
    with d show ?thesis by (cases d) auto
  next
    assume "\<exists>desc. distributionProperty left = HASH desc \<and> getSourceType desc = LOCAL
            \<and> containsAll (getColumns d) (getColumns desc)
            \<and> a = (distributeRequirements req, snd p)"
    then obtain desc where "distributionProperty left = HASH desc" "getSourceType desc = LOCAL"
      "containsAll (getColumns d) (getColumns desc)" "a = (distributeRequirements req, snd p)"
      by blast
    with p show ?thesis by (cases desc) (auto simp: containsAll_subset)
  qed
qed

lemma visitJoinRequirements_right:
  assumes "getRequiredLocalDesc req = Some d"
    and "\<not> contains (getChildOutputColumns ctx 0) (set (getColumns d))"
    and "contains (getChildOutputColumns ctx 1) (set (getColumns d))"
    and "visitJoinRequirements req ctx props = Inr res" and "a \<in> set res"
  shows "fst a = distributeRequirements req \<and>
    (\<exists>right cols. getAt (snd a) 1 = Inr right
       \<and> distributionProperty right = HASH (HashDistributionDesc cols LOCAL)
       \<and> set cols \<subseteq> set (getColumns d))"
proof -
  from assms have "requirementsFromRight req d props = Inr res"
    by (simp add: visitJoinRequirements_def Let_def)
  from requirementsFromRight_mem [OF this assms(5)] obtain p right desc where
    p: "p \<in> set props" "getAt (snd p) 1 = Inr right"
      "distributionProperty right = HASH desc" "getSourceType desc = LOCAL"
      "containsAll (getColumns d) (getColumns desc)" "a = (distributeRequirements req, snd p)"
    by blast
  then show ?thesis by (cases desc) (auto simp: containsAll_subset)
qed

lemma indexOf_bounds: "x \<in> set xs \<Longrightarrow> 0 \<le> indexOf xs x \<and> indexOf xs x < int (length xs)"
  by (induction xs) (auto simp: Let_def)

lemma rightBucketShuffleColumns_total:
  "set scan \<subseteq> set l \<Longrightarrow> length l = length r \<Longrightarrow>
   \<exists>cs. rightBucketShuffleColumns l r scan = Inr cs"
proof (induction scan)
  case Nil
  then show ?case by simp
next
  case (Cons c scan)
  then have "c \<in> set l" by simp
  from indexOf_bounds [OF this] Cons.prems(2)
  obtain x where "getAt r (indexOf l c) = Inr x" by (auto simp: getAt_def)
  moreover from Cons obtain cs where "rightBucketShuffleColumns l r scan = Inr cs" by auto
  ultimately show ?case by simp
qed

lemma tryBucketShuffle_shape:
  "tryBucketShuffle env node l r = Inr alts \<Longrightarrow> p \<in> set alts \<Longrightarrow>
   fst p = EMPTY \<and> (\<exists>a b. snd p = [a, b] \<and> sortProperty a = [] \<and> sortProperty b = []
        \<and> validPropertySet a \<and> validPropertySet b)"
  by (auto simp: tryBucketShuffle_def Let_def bindE_Inr_iff createPropertySetByDistribution_def
      propertySetOfDistribution_def createHashDistributionSpec_def
      intro: validPropertySet_new split: option.splits if_splits)

lemma tryColocate_error: "tryColocate env l r = Inl e \<Longrightarrow> e = IllegalStateException"
  by (auto simp: tryColocate_def Let_def split: option.splits if_splits)

lemma tryColocate_cases:
  "tryColocate env l r = Inr alts \<Longrightarrow>
   alts = [] \<or> (\<exists>cl cr. alts = [(EMPTY,
      [createPropertySetByDistribution (HASH (HashDistributionDesc cl LOCAL)),
       createPropertySetByDistribution (HASH (HashDistributionDesc cr LOCAL))])])"
  unfolding tryColocate_def Let_def
  by (simp split: option.splits if_splits) blast+

lemma tryBucketShuffle_error:
  assumes "length l = length r" and "tryBucketShuffle env node l r = Inl e"
  shows "e = IllegalStateException"
proof (cases "findLogicalOlapScanOperator env l")
  case None
  with assms(2) show ?thesis by (simp add: tryBucketShuffle_def split: if_splits)
next
  case (Some left)
  show ?thesis
  proof (cases "containsAll l (getColumns (scanDistributionSpec left))")
    case True
    then have "set (getColumns (scanDistributionSpec left)) \<subseteq> set l"
      by (simp add: containsAll_subset)
    from rightBucketShuffleColumns_total [OF this assms(1)]
    obtain cs where cs: "rightBucketShuffleColumns l r (getColumns (scanDistributionSpec left)) = Inr cs"
      by blast
    show ?thesis
    proof (cases "newHashDistributionDesc cs SHUFFLE_JOIN")
      case (Inl e')
      with newHashDistributionDesc_Inl [OF Inl] Some True cs assms(2) show ?thesis
        by (simp add: tryBucketShuffle_def Let_def split: if_splits)
    next
      case (Inr d)
      with Some True cs assms(2) show ?thesis
        by (simp add: tryBucketShuffle_def Let_def split: if_splits)
    qed
  next
    case False
    with Some assms(2) show ?thesis by (simp add: tryBucketShuffle_def Let_def split: if_splits)
  qed
qed

lemma shuffleJoinStep_nonempty:
  assumes "length l = length r" and "l \<noteq> []"
  shows "shuffleJoinStep env req node ctx before l r =
    (if equalsIgnoreCase ''SHUFFLE'' (getJoinHint node)
        \<or> list_ex (\<lambda>p. \<not> isColumnToColumnBinaryPredicate p) (equalOnPredicate node)
     then visitJoinRequirements req ctx (before @
        [(EMPTY, [\<lparr>distributionProperty = HASH (HashDistributionDesc l SHUFFLE_JOIN), sortProperty = []\<rparr>,
                  \<lparr>distributionProperty = HASH (HashDistributionDesc r SHUFFLE_JOIN), sortProperty = []\<rparr>])])
     else bindE (if \<not> equalsIgnoreCase ''BUCKET'' (getJoinHint node)
                 then tryColocate env l r else Inr [])
       (\<lambda>colocate. bindE (tryBucketShuffle env node l r)
       (\<lambda>bucket. visitJoinRequirements req ctx ((before @
        [(EMPTY, [\<lparr>distributionProperty = HASH (HashDistributionDesc l SHUFFLE_JOIN), sortProperty = []\<rparr>,
                  \<lparr>distributionProperty = HASH (HashDistributionDesc r SHUFFLE_JOIN), sortProperty = []\<rparr>])])
          @ colocate @ bucket))))"
proof -
  from assms have "r \<noteq> []" by auto
  with assms show ?thesis
    by (simp add: shuffleJoinStep_def newHashDistributionDesc_nonempty Let_def
        createPropertySetByDistribution_def propertySetOfDistribution_def
        createHashDistributionSpec_def)
qed

lemma shuffleJoinStep_empty:
  "shuffleJoinStep env req node ctx before [] r = Inl IllegalStateException"
  by (simp add: shuffleJoinStep_def)

lemma shuffleJoinStep_mismatch:
  "length l \<noteq> length r \<Longrightarrow> shuffleJoinStep env req node ctx before l r = Inl IllegalStateException"
  by (simp add: shuffleJoinStep_def)

lemma shuffleJoinStep_via_requirements:
  assumes "shuffleJoinStep env req node ctx before l r = Inr res"
    and "\<forall>p\<in>set before. fst p = EMPTY \<and> (\<exists>a b. snd p = [a, b] \<and> sortProperty a = [] \<and> sortProperty b = []
        \<and> validPropertySet a \<and> validPropertySet b)"
  shows "\<exists>props. visitJoinRequirements req ctx props = Inr res \<and>
     (\<forall>p\<in>set props. fst p = EMPTY \<and> (\<exists>a b. snd p = [a, b] \<and> sortProperty a = [] \<and> sortProperty b = []
        \<and> validPropertySet a \<and> validPropertySet b))"
proof -
  let ?S = "(EMPTY, [\<lparr>distributionProperty = HASH (HashDistributionDesc l SHUFFLE_JOIN), sortProperty = []\<rparr>,
                  \<lparr>distributionProperty = HASH (HashDistributionDesc r SHUFFLE_JOIN), sortProperty = []\<rparr>])"
  let ?P = "\<lambda>p::Alternative. fst p = EMPTY \<and> (\<exists>a b. snd p = [a, b] \<and> sortProperty a = [] \<and> sortProperty b = []
        \<and> validPropertySet a \<and> validPropertySet b)"
  from assms(1) have len: "length l = length r"
    using shuffleJoinStep_mismatch [of l r env req node ctx before] by auto
  from assms(1) have ne: "l \<noteq> []"
    using shuffleJoinStep_empty [of env req node ctx before r] by auto
  from len ne have ne': "r \<noteq> []" by auto
  from ne ne' have S: "?P ?S" by simp
  note step = shuffleJoinStep_nonempty [OF len ne, of env req node ctx before]
  show ?thesis
  proof (cases "equalsIgnoreCase ''SHUFFLE'' (getJoinHint node)
        \<or> list_ex (\<lambda>p. \<not> isColumnToColumnBinaryPredicate p) (equalOnPredicate node)")
    case True
    with assms(1) have "visitJoinRequirements req ctx (before @ [?S]) = Inr res"
      unfolding step by simp
    moreover from assms(2) S have "\<forall>p\<in>set (before @ [?S]). ?P p" by auto
    ultimately show ?thesis by blast
  next
    case False
    with assms(1) have "bindE
        (if \<not> equalsIgnoreCase ''BUCKET'' (getJoinHint node) then tryColocate env l r else Inr [])
        (\<lambda>colocate. bindE (tryBucketShuffle env node l r)
           (\<lambda>bucket. visitJoinRequirements req ctx ((before @ [?S]) @ colocate @ bucket))) = Inr res"
      unfolding step by simp
    then obtain colocate bucket where
      c: "(if \<not> equalsIgnoreCase ''BUCKET'' (getJoinHint node) then tryColocate env l r else Inr []) = Inr colocate"
      and b: "tryBucketShuffle env node l r = Inr bucket"
      and v: "visitJoinRequirements req ctx ((before @ [?S]) @ colocate @ bucket) = Inr res"
      unfolding bindE_Inr_iff by blast
    from c have "\<forall>p\<in>set colocate. ?P p"
      by (auto split: if_splits dest!: tryColocate_cases
          simp: createPropertySetByDistribution_def propertySetOfDistribution_def)
    moreover from b have "\<forall>p\<in>set bucket. ?P p"
      by (auto dest: tryBucketShuffle_shape)
    ultimately have "\<forall>p\<in>set ((before @ [?S]) @ colocate @ bucket). ?P p"
      using assms(2) S by auto
    with v show ?thesis by blast
  qed
qed

lemma visitPhysicalHashJoin_limit:
  "hasLimit (getChildOperator ctx 0) \<or> hasLimit (getChildOperator ctx 1) \<Longrightarrow>
   visitPhysicalHashJoin env req node ctx =
     visitJoinRequirements req ctx
       (if hasLimit (getChildOperator ctx 0)
        then [(EMPTY, [createLimitGatherProperty (getLimit (getChildOperator ctx 0)),
                       propertySetOfDistribution createReplicatedDistributionSpec])]
        else [(EMPTY, [newPhysicalPropertySet,
                       propertySetOfDistribution createReplicatedDistributionSpec])])"
  by (simp add: visitPhysicalHashJoin_def Let_def)

lemma visitPhysicalHashJoin_broadcast_only:
  "\<not> hasLimit (getChildOperator ctx 0) \<Longrightarrow> \<not> hasLimit (getChildOperator ctx 1) \<Longrightarrow>
   isCrossJoin (getJoinType node) \<or> NULL_AWARE_LEFT_ANTI_JOIN = getJoinType node
     \<or> (isInnerJoin (getJoinType node) \<and> equalOnPredicate node = [])
     \<or> equalsIgnoreCase ''BROADCAST'' (getJoinHint node) \<Longrightarrow>
   visitPhysicalHashJoin env req node ctx =
     visitJoinRequirements req ctx
       [(EMPTY, [newPhysicalPropertySet,
                 propertySetOfDistribution createReplicatedDistributionSpec])]"
  by (simp add: visitPhysicalHashJoin_def Let_def)

lemma visitPhysicalHashJoin_shuffle:
  "\<not> hasLimit (getChildOperator ctx 0) \<Longrightarrow> \<not> hasLimit (getChildOperator ctx 1) \<Longrightarrow>
   \<not> (isCrossJoin (getJoinType node) \<or> NULL_AWARE_LEFT_ANTI_JOIN = getJoinType node
     \<or> (isInnerJoin (getJoinType node) \<and> equalOnPredicate node = [])
     \<or> equalsIgnoreCase ''BROADCAST'' (getJoinHint node)) \<Longrightarrow>
   visitPhysicalHashJoin env req node ctx =
     shuffleJoinStep env req node ctx
       (if isRightJoin (getJoinType node) \<or> isFullOuterJoin (getJoinType node)
           \<or> equalsIgnoreCase ''SHUFFLE'' (getJoinHint node)
        then []
        else [(EMPTY, [newPhysicalPropertySet,
                       propertySetOfDistribution createReplicatedDistributionSpec])])
       (map leftColumn (equalOnPredicate node)) (map rightColumn (equalOnPredicate node))"
  by (auto simp: visitPhysicalHashJoin_def Let_def getJoinOnPredicatesColumns_def)

lemma visitPhysicalHashJoin_via_requirements:
  assumes "visitPhysicalHashJoin env req node ctx = Inr res"
  shows "\<exists>props. visitJoinRequirements req ctx props = Inr res \<and>
     (\<forall>p\<in>set props. fst p = EMPTY \<and> (\<exists>a b. snd p = [a, b] \<and> sortProperty a = [] \<and> sortProperty b = []
        \<and> validPropertySet a \<and> validPropertySet b))"
proof -
  let ?P = "\<lambda>p::Alternative. fst p = EMPTY \<and> (\<exists>a b. snd p = [a, b] \<and> sortProperty a = [] \<and> sortProperty b = []
        \<and> validPropertySet a \<and> validPropertySet b)"
  let ?B = "(EMPTY, [newPhysicalPropertySet, propertySetOfDistribution createReplicatedDistributionSpec])"
  let ?G = "(EMPTY, [createLimitGatherProperty (getLimit (getChildOperator ctx 0)), propertySetOfDistribution createReplicatedDistributionSpec])"
  have B: "?P ?B" and G: "?P ?G"
    by (simp_all add: newPhysicalPropertySet_def propertySetOfDistribution_def
        createLimitGatherProperty_def propertySetOf_def createReplicatedDistributionSpec_def
        createGatherDistributionSpecLimit_def)
  consider (limit) "hasLimit (getChildOperator ctx 0) \<or> hasLimit (getChildOperator ctx 1)"
    | (short) "\<not> hasLimit (getChildOperator ctx 0)" "\<not> hasLimit (getChildOperator ctx 1)"
        "isCrossJoin (getJoinType node) \<or> NULL_AWARE_LEFT_ANTI_JOIN = getJoinType node
          \<or> (isInnerJoin (getJoinType node) \<and> equalOnPredicate node = [])
          \<or> equalsIgnoreCase ''BROADCAST'' (getJoinHint node)"
    | (shuffle) "\<not> hasLimit (getChildOperator ctx 0)" "\<not> hasLimit (getChildOperator ctx 1)"
        "\<not> (isCrossJoin (getJoinType node) \<or> NULL_AWARE_LEFT_ANTI_JOIN = getJoinType node
          \<or> (isInnerJoin (getJoinType node) \<and> equalOnPredicate node = [])
          \<or> equalsIgnoreCase ''BROADCAST'' (getJoinHint node))"
    by blast
  then show ?thesis
  proof cases
    case limit
    from assms have "visitJoinRequirements req ctx
        (if hasLimit (getChildOperator ctx 0) then [?G] else [?B]) = Inr res"
      by (simp only: visitPhysicalHashJoin_limit [OF limit])
    moreover from B G have "\<forall>p\<in>set (if hasLimit (getChildOperator ctx 0) then [?G] else [?B]). ?P p"
      by simp
    ultimately show ?thesis by blast
  next
    case short
    from assms have "visitJoinRequirements req ctx [?B] = Inr res"
      by (simp only: visitPhysicalHashJoin_broadcast_only [OF short])
    moreover from B have "\<forall>p\<in>set [?B]. ?P p" by simp
    ultimately show ?thesis by blast
  next
    case shuffle
    let ?before = "if isRightJoin (getJoinType node) \<or> isFullOuterJoin (getJoinType node)
                          \<or> equalsIgnoreCase ''SHUFFLE'' (getJoinHint node) then [] else [?B]"
    from assms have "shuffleJoinStep env req node ctx ?before
        (map leftColumn (equalOnPredicate node)) (map rightColumn (equalOnPredicate node)) = Inr res"
      by (simp only: visitPhysicalHashJoin_shuffle [OF shuffle])
    moreover from B have "\<forall>p\<in>set ?before. ?P p" by simp
    ultimately show ?thesis by (rule shuffleJoinStep_via_requirements)
  qed
qed

lemma visitJoinRequirements_shape:
  assumes "visitJoinRequirements req ctx props = Inr res"
    and "\<forall>p\<in>set props. \<exists>a b. snd p = [a, b] \<and> sortProperty a = [] \<and> sortProperty b = []"
    and "x \<in> set res"
  shows "\<exists>a b. snd x = [a, b] \<and> sortProperty a = [] \<and> sortProperty b = []"
proof (cases "getRequiredLocalDesc req")
  case None
  with assms show ?thesis by (simp add: visitJoinRequirements_none)
next
  case (Some d)
  let ?L = "contains (getChildOutputColumns ctx 0) (set (getColumns d))"
  let ?R = "contains (getChildOutputColumns ctx 1) (set (getColumns d))"
  consider "?L = ?R" | "?L" "\<not> ?R" | "\<not> ?L" "?R" by blast
  then show ?thesis
  proof cases
    case 1
    with Some assms(1,3) show ?thesis by (simp add: visitJoinRequirements_ambiguous)
  next
    case 2
    with Some assms(1) have "requirementsFromLeft req d props = Inr res"
      by (simp add: visitJoinRequirements_def Let_def)
    from requirementsFromLeft_mem [OF this assms(3)] assms(2) show ?thesis
      by (fastforce simp: getAt_def)
  next
    case 3
    with Some assms(1) have "requirementsFromRight req d props = Inr res"
      by (simp add: visitJoinRequirements_def Let_def)
    from requirementsFromRight_mem [OF this assms(3)] assms(2) show ?thesis
      by fastforce
  qed
qed

lemma visitPhysicalHashJoin_shape:
  assumes "visitPhysicalHashJoin env req node ctx = Inr res" and "x \<in> set res"
  shows "\<exists>a b. snd x = [a, b] \<and> sortProperty a = [] \<and> sortProperty b = []"
proof -
  from visitPhysicalHashJoin_via_requirements [OF assms(1)] obtain props where
    "visitJoinRequirements req ctx props = Inr res"
    "\<forall>p\<in>set props. \<exists>a b. snd p = [a, b] \<and> sortProperty a = [] \<and> sortProperty b = []"
    by blast
  then show ?thesis using assms(2) by (rule visitJoinRequirements_shape)
qed

lemma shuffleJoinStep_no_local:
  assumes "getRequiredLocalDesc req = None" and "length l = length r" and "l \<noteq> []"
    and "\<not> equalsIgnoreCase ''SHUFFLE'' (getJoinHint node)"
  shows "case shuffleJoinStep env req node ctx before l r of
           Inr alts \<Rightarrow> \<exists>rest. alts = before @
              [(EMPTY, [\<lparr>distributionProperty = HASH (HashDistributionDesc l SHUFFLE_JOIN), sortProperty = []\<rparr>,
                        \<lparr>distributionProperty = HASH (HashDistributionDesc r SHUFFLE_JOIN), sortProperty = []\<rparr>])]
              @ rest
         | Inl e \<Rightarrow> e = IllegalStateException
             \<and> (tryColocate env l r = Inl IllegalStateException
                \<or> tryBucketShuffle env node l r = Inl IllegalStateException)"
proof (cases "list_ex (\<lambda>p. \<not> isColumnToColumnBinaryPredicate p) (equalOnPredicate node)")
  case True
  with assms show ?thesis
    by (simp add: shuffleJoinStep_nonempty visitJoinRequirements_none)
next
  case False
  show ?thesis
  proof (cases "if \<not> equalsIgnoreCase ''BUCKET'' (getJoinHint node) then tryColocate env l r else Inr []")
    case (Inl e)
    then have "tryColocate env l r = Inl e" by (simp split: if_splits)
    with tryColocate_error [OF this] Inl False assms show ?thesis
      by (simp add: shuffleJoinStep_nonempty)
  next
    case colocate: (Inr colocate)
    show ?thesis
    proof (cases "tryBucketShuffle env node l r")
      case (Inl e)
      with tryBucketShuffle_error [OF assms(2) Inl] colocate False assms show ?thesis
        by (simp add: shuffleJoinStep_nonempty)
    next
      case (Inr bucket)
      with colocate False assms show ?thesis
        by (simp add: shuffleJoinStep_nonempty visitJoinRequirements_none)
    qed
  qed
qed

lemma requirementsFromLeft_total:
  "\<forall>p\<in>set props. \<exists>a b. snd p = [a, b] \<Longrightarrow> \<exists>res. requirementsFromLeft req d props = Inr res"
proof (induction props)
  case Nil
  then show ?case by simp
next
  case (Cons p ps)
  then obtain a b res where p: "snd p = [a, b]" and r: "requirementsFromLeft req d ps = Inr res"
    by auto
  show ?case
    by (cases "distributionProperty a") (simp_all add: p r)
qed

lemma requirementsFromRight_total:
  "\<forall>p\<in>set props. \<exists>a b. snd p = [a, b] \<Longrightarrow> \<exists>res. requirementsFromRight req d props = Inr res"
proof (induction props)
  case Nil
  then show ?case by simp
next
  case (Cons p ps)
  then obtain a b res where p: "snd p = [a, b]" and r: "requirementsFromRight req d ps = Inr res"
    by auto
  show ?case
    by (cases "distributionProperty b") (simp_all add: p r)
qed

lemma visitJoinRequirements_total:
  assumes "\<forall>p\<in>set props. \<exists>a b. snd p = [a, b]"
  shows "\<exists>res. visitJoinRequirements req ctx props = Inr res"
  using requirementsFromLeft_total [OF assms] requirementsFromRight_total [OF assms]
  by (simp add: visitJoinRequirements_def Let_def split: option.splits)

lemma shuffleJoinStep_error:
  assumes "shuffleJoinStep env req node ctx before l r = Inl e"
    and "\<forall>p\<in>set before. \<exists>a b. snd p = [a, b]"
  shows "e = IllegalStateException
    \<and> (length l \<noteq> length r \<or> l = []
       \<or> tryColocate env l r = Inl IllegalStateException
       \<or> tryBucketShuffle env node l r = Inl IllegalStateException)"
proof (cases "length l = length r \<and> l \<noteq> []")
  case False
  with assms(1) shuffleJoinStep_mismatch [of l r env req node ctx before]
    shuffleJoinStep_empty [of env req node ctx before r]
  show ?thesis by auto
next
  case True
  then have len: "length l = length r" and ne: "l \<noteq> []" by simp_all
  note step = shuffleJoinStep_nonempty [OF len ne, of env req node ctx before]
  let ?S = "(EMPTY, [\<lparr>distributionProperty = HASH (HashDistributionDesc l SHUFFLE_JOIN), sortProperty = []\<rparr>,
                  \<lparr>distributionProperty = HASH (HashDistributionDesc r SHUFFLE_JOIN), sortProperty = []\<rparr>])"
  from assms(2) have S: "\<forall>p\<in>set (before @ [?S]). \<exists>a b. snd p = [a, b]" by auto
  from visitJoinRequirements_total [OF S] obtain res0 where
    v0: "visitJoinRequirements req ctx (before @ [?S]) = Inr res0" by blast
  show ?thesis
  proof (cases "equalsIgnoreCase ''SHUFFLE'' (getJoinHint node)
        \<or> list_ex (\<lambda>p. \<not> isColumnToColumnBinaryPredicate p) (equalOnPredicate node)")
    case True
    with assms(1) v0 show ?thesis unfolding step by simp
  next
    case False
    show ?thesis
    proof (cases "if \<not> equalsIgnoreCase ''BUCKET'' (getJoinHint node) then tryColocate env l r else Inr []")
      case (Inl e')
      then have t: "tryColocate env l r = Inl e'" by (simp split: if_splits)
      from tryColocate_error [OF t] t Inl assms(1) False show ?thesis
        unfolding step by simp
    next
      case colocate: (Inr colocate)
      then have cs: "\<forall>p\<in>set colocate. \<exists>a b. snd p = [a, b]"
        by (auto split: if_splits dest!: tryColocate_cases)
      show ?thesis
      proof (cases "tryBucketShuffle env node l r")
        case (Inl e')
        from tryBucketShuffle_error [OF len Inl] Inl colocate assms(1) False show ?thesis
          unfolding step by simp
      next
        case (Inr bucket)
        have bs: "\<forall>p\<in>set bucket. \<exists>a b. snd p = [a, b]"
          using tryBucketShuffle_shape [OF Inr] by blast
        from S cs bs have "\<forall>p\<in>set ((before @ [?S]) @ colocate @ bucket). \<exists>a b. snd p = [a, b]"
          by auto
        from visitJoinRequirements_total [OF this] obtain res where
          "visitJoinRequirements req ctx ((before @ [?S]) @ colocate @ bucket) = Inr res" by blast
        with Inr colocate assms(1) False show ?thesis
          unfolding step by simp
      qed
    qed
  qed
qed

lemma visitPhysicalHashJoin_error:
  assumes "visitPhysicalHashJoin env req node ctx = Inl e"
  shows "e = IllegalStateException
    \<and> \<not> hasLimit (getChildOperator ctx 0) \<and> \<not> hasLimit (getChildOperator ctx 1)
    \<and> \<not> (isCrossJoin (getJoinType node) \<or> NULL_AWARE_LEFT_ANTI_JOIN = getJoinType node
          \<or> (isInnerJoin (getJoinType node) \<and> equalOnPredicate node = [])
          \<or> equalsIgnoreCase ''BROADCAST'' (getJoinHint node))
    \<and> (equalOnPredicate node = []
       \<or> tryColocate env (map leftColumn (equalOnPredicate node))
            (map rightColumn (equalOnPredicate node)) = Inl IllegalStateException
       \<or> tryBucketShuffle env node (map leftColumn (equalOnPredicate node))
            (map rightColumn (equalOnPredicate node)) = Inl IllegalStateException)"
proof -
  let ?B = "(EMPTY, [newPhysicalPropertySet, propertySetOfDistribution createReplicatedDistributionSpec])"
  let ?G = "(EMPTY, [createLimitGatherProperty (getLimit (getChildOperator ctx 0)), propertySetOfDistribution createReplicatedDistributionSpec])"
  consider (limit) "hasLimit (getChildOperator ctx 0) \<or> hasLimit (getChildOperator ctx 1)"
    | (short) "\<not> hasLimit (getChildOperator ctx 0)" "\<not> hasLimit (getChildOperator ctx 1)"
        "isCrossJoin (getJoinType node) \<or> NULL_AWARE_LEFT_ANTI_JOIN = getJoinType node
          \<or> (isInnerJoin (getJoinType node) \<and> equalOnPredicate node = [])
          \<or> equalsIgnoreCase ''BROADCAST'' (getJoinHint node)"
    | (shuffle) "\<not> hasLimit (getChildOperator ctx 0)" "\<not> hasLimit (getChildOperator ctx 1)"
        "\<not> (isCrossJoin (getJoinType node) \<or> NULL_AWARE_LEFT_ANTI_JOIN = getJoinType node
          \<or> (isInnerJoin (getJoinType node) \<and> equalOnPredicate node = [])
          \<or> equalsIgnoreCase ''BROADCAST'' (getJoinHint node))"
    by blast
  then show ?thesis
  proof cases
    case limit
    have "\<forall>p\<in>set (if hasLimit (getChildOperator ctx 0) then [?G] else [?B]). \<exists>a b. snd p = [a, b]"
      by simp
    from visitJoinRequirements_total [OF this, of req ctx] assms show ?thesis
      by (simp only: visitPhysicalHashJoin_limit [OF limit]) simp
  next
    case short
    have "\<forall>p\<in>set [?B]. \<exists>a b. snd p = [a, b]" by simp
    from visitJoinRequirements_total [OF this, of req ctx] assms show ?thesis
      by (simp only: visitPhysicalHashJoin_broadcast_only [OF short]) simp
  next
    case shuffle
    let ?before = "if isRightJoin (getJoinType node) \<or> isFullOuterJoin (getJoinType node)
                          \<or> equalsIgnoreCase ''SHUFFLE'' (getJoinHint node) then [] else [?B]"
    from assms have "shuffleJoinStep env req node ctx ?before
        (map leftColumn (equalOnPredicate node)) (map rightColumn (equalOnPredicate node)) = Inl e"
      by (simp only: visitPhysicalHashJoin_shuffle [OF shuffle])
    moreover have "\<forall>p\<in>set ?before. \<exists>a b. snd p = [a, b]" by simp
    ultimately have "e = IllegalStateException
    \<and> (length (map leftColumn (equalOnPredicate node)) \<noteq> length (map rightColumn (equalOnPredicate node))
      \<or> map leftColumn (equalOnPredicate node) = []
      \<or> tryColocate env (map leftColumn (equalOnPredicate node))
         (map rightColumn (equalOnPredicate node)) = Inl IllegalStateException
      \<or> tryBucketShuffle env node (map leftColumn (equalOnPredicate node))
         (map rightColumn (equalOnPredicate node)) = Inl IllegalStateException)"
      by (rule shuffleJoinStep_error)
    with shuffle show ?thesis by simp
  qed
qed


lemma aggregateRequirementsLoop_any:
  "aggregateRequirementsLoop req d [(out, [\<lparr>distributionProperty = ANY, sortProperty = s\<rparr>])]
     = Inr [(distributeRequirements req, [distributeRequirements req])]"
  by simp

lemma aggregateRequirementsLoop_gather:
  "aggregateRequirementsLoop req d [(out, [\<lparr>distributionProperty = GATHER g, sortProperty = s\<rparr>])]
     = Inr []"
  by simp

lemma aggregateRequirementsLoop_hash:
  "aggregateRequirementsLoop req d
     [(\<lparr>distributionProperty = HASH (HashDistributionDesc cols SHUFFLE_AGG), sortProperty = []\<rparr>,
       [\<lparr>distributionProperty = HASH (HashDistributionDesc cols SHUFFLE_AGG), sortProperty = []\<rparr>]),
      (\<lparr>distributionProperty = HASH (HashDistributionDesc cols LOCAL), sortProperty = []\<rparr>,
       [\<lparr>distributionProperty = HASH (HashDistributionDesc cols LOCAL), sortProperty = []\<rparr>])]
     = Inr (if containsAll (getColumns d) cols
            then [(distributeRequirements req,
                   [\<lparr>distributionProperty = HASH (HashDistributionDesc cols LOCAL), sortProperty = []\<rparr>])]
            else [])"
  by simp

lemma visitPhysicalHashAggregate_no_local:
  assumes "getRequiredLocalDesc req = None"
  shows "visitPhysicalHashAggregate env req node ctx = Inr
     (if getNewPlannerAggStage env = 0 \<and> isExecuteInOneInstance ctx
          \<and> aggTypeIsGlobal node \<and> \<not> aggIsSplit node
      then [(EMPTY, [EMPTY])]
      else if hasLimit (getChildOperator ctx 0) \<and> (aggTypeIsGlobal node \<and> \<not> aggIsSplit node)
      then [(EMPTY, [\<lparr>distributionProperty = GATHER (Some (getLimit (getChildOperator ctx 0))),
                       sortProperty = []\<rparr>])]
      else if \<not> aggTypeIsLocal node
      then (if getPartitionByColumns node = []
            then [(\<lparr>distributionProperty = GATHER None, sortProperty = []\<rparr>,
                   [\<lparr>distributionProperty = GATHER None, sortProperty = []\<rparr>])]
            else [(\<lparr>distributionProperty = HASH (HashDistributionDesc (getPartitionByColumns node) SHUFFLE_AGG), sortProperty = []\<rparr>,
                   [\<lparr>distributionProperty = HASH (HashDistributionDesc (getPartitionByColumns node) SHUFFLE_AGG), sortProperty = []\<rparr>]),
                  (\<lparr>distributionProperty = HASH (HashDistributionDesc (getPartitionByColumns node) LOCAL), sortProperty = []\<rparr>,
                   [\<lparr>distributionProperty = HASH (HashDistributionDesc (getPartitionByColumns node) LOCAL), sortProperty = []\<rparr>])])
      else [(EMPTY, [EMPTY])])"
  using assms by (auto simp: aggregate_defs)

lemma visitPhysicalHashAggregate_local:
  assumes "getRequiredLocalDesc req = Some d"
  shows "visitPhysicalHashAggregate env req node ctx = Inr
     (if getNewPlannerAggStage env = 0 \<and> isExecuteInOneInstance ctx
          \<and> aggTypeIsGlobal node \<and> \<not> aggIsSplit node
      then [(distributeRequirements req, [distributeRequirements req])]
      else if hasLimit (getChildOperator ctx 0) \<and> (aggTypeIsGlobal node \<and> \<not> aggIsSplit node)
      then []
      else if \<not> aggTypeIsLocal node
      then (if getPartitionByColumns node = [] then []
            else if containsAll (getColumns d) (getPartitionByColumns node)
            then [(distributeRequirements req,
                   [\<lparr>distributionProperty = HASH (HashDistributionDesc (getPartitionByColumns node) LOCAL), sortProperty = []\<rparr>])]
            else [])
      else [(distributeRequirements req, [distributeRequirements req])])"
  using assms
  by (auto simp: aggregate_defs aggregateRequirementsLoop_any aggregateRequirementsLoop_gather
      aggregateRequirementsLoop_hash simp del: aggregateRequirementsLoop.simps)

lemma visitPhysicalHashAggregate_children:
  assumes "visitPhysicalHashAggregate env req node ctx = Inr alts" and "alt \<in> set alts"
  shows "\<exists>c. snd alt = [c] \<and> sortProperty c = []"
proof (cases "getRequiredLocalDesc req")
  case None
  from assms show ?thesis
    unfolding visitPhysicalHashAggregate_no_local [OF None]
    by (auto simp: EMPTY_def split: if_splits)
next
  case (Some d)
  from assms show ?thesis
    unfolding visitPhysicalHashAggregate_local [OF Some]
    by (auto simp: EMPTY_def split: if_splits)
qed

lemma visitPhysicalHashAggregate_local_output:
  assumes "visitPhysicalHashAggregate env req node ctx = Inr alts" and "alt \<in> set alts"
    and "isLocal (distributionProperty (fst alt))"
  shows "(getRequiredLocalDesc req \<noteq> None
            \<and> distributionProperty (fst alt) = distributionProperty req)
         \<or> (getRequiredLocalDesc req = None \<and> \<not> aggTypeIsLocal node
            \<and> getPartitionByColumns node \<noteq> []
            \<and> distributionProperty (fst alt)
                = HASH (HashDistributionDesc (getPartitionByColumns node) LOCAL))"
proof (cases "getRequiredLocalDesc req")
  case None
  from assms show ?thesis
    unfolding visitPhysicalHashAggregate_no_local [OF None]
    by (auto simp: EMPTY_def None split: if_splits)
next
  case (Some d)
  from assms show ?thesis
    unfolding visitPhysicalHashAggregate_local [OF Some]
    by (auto simp: Some split: if_splits)
qed

lemma visitPhysicalAnalytic_children:
  assumes "visitPhysicalAnalytic req node = Inr alts" and "alt \<in> set alts"
  shows "length (snd alt) = 1"
  using assms
  by (auto simp: visitPhysicalAnalytic_def bindE_Inr_iff Let_def
      split: option.splits if_splits prod.splits)

lemma visitPhysicalAnalytic_local_output:
  assumes "visitPhysicalAnalytic req node = Inr alts" and "alt \<in> set alts"
    and "isLocal (distributionProperty (fst alt))"
  shows "\<exists>cols ords. partitionOrderings (getPartitionExpressions node) = Inr (cols, ords)
           \<and> cols \<noteq> []
           \<and> distributionProperty (fst alt) = HASH (HashDistributionDesc cols LOCAL)"
  using assms
  by (auto simp: visitPhysicalAnalytic_def bindE_Inr_iff Let_def propertySetOf_def
      createHashDistributionSpec_def createGatherDistributionSpec_def
      dest!: newHashDistributionDesc_Inr split: option.splits if_splits prod.splits)

lemma processSetOperationChildProperty_children:
  assumes "alt \<in> set (processSetOperationChildProperty req ctx)"
  shows "length (snd alt) = arity ctx \<and> (\<forall>c\<in>set (snd alt). sortProperty c = [])
     \<and> fst alt = EMPTY"
  using assms
  by (auto simp: processSetOperationChildProperty_def Let_def EMPTY_def
      createLimitGatherProperty_def propertySetOf_def split: if_splits)

lemma visitJoinRequirements_valid:
  assumes "visitJoinRequirements req ctx props = Inr res"
    and "\<forall>p\<in>set props. validPropertySet (fst p) \<and> (\<forall>c\<in>set (snd p). validPropertySet c)"
    and "x \<in> set res"
  shows "validPropertySet (fst x) \<and> (\<forall>c\<in>set (snd x). validPropertySet c)"
proof (cases "getRequiredLocalDesc req")
  case None
  with assms show ?thesis by (simp add: visitJoinRequirements_none)
next
  case (Some d)
  then have dr: "validPropertySet (distributeRequirements req)"
    by (cases d) (simp add: getRequiredLocalDesc_Some validPropertySet_def
        validHashDistributionDesc_def)
  let ?L = "contains (getChildOutputColumns ctx 0) (set (getColumns d))"
  let ?R = "contains (getChildOutputColumns ctx 1) (set (getColumns d))"
  consider "?L = ?R" | "?L" "\<not> ?R" | "\<not> ?L" "?R" by blast
  then show ?thesis
  proof cases
    case 1
    with Some assms(1,3) show ?thesis by (simp add: visitJoinRequirements_ambiguous)
  next
    case 2
    with Some assms(1) have "requirementsFromLeft req d props = Inr res"
      by (simp add: visitJoinRequirements_def Let_def)
    from requirementsFromLeft_mem [OF this assms(3)] assms(2) dr show ?thesis
      by (fastforce simp: getAt_def split: if_splits)
  next
    case 3
    with Some assms(1) have "requirementsFromRight req d props = Inr res"
      by (simp add: visitJoinRequirements_def Let_def)
    from requirementsFromRight_mem [OF this assms(3)] assms(2) dr show ?thesis
      by fastforce
  qed
qed

text \<open>
  The deriver keeps the invariant: when the required property and, for an OLAP scan, the
  scan's own distribution satisfy it, so do the output property and every child requirement
  of every returned alternative. No returned alternative holds a shuffle distribution on an
  empty column list.
\<close>

lemma returned_alternatives_valid:
  assumes "getOutputInputProps env req op ctx = Inr alts" and "alt \<in> set alts"
    and "validPropertySet req"
    and "\<forall>node. op = PhysicalOlapScan node \<longrightarrow> validHashDistributionDesc (getDistributionSpec node)"
  shows "validPropertySet (fst alt) \<and> (\<forall>c\<in>set (snd alt). validPropertySet c)"
proof -
  from assms(3) have dr: "validPropertySet (distributeRequirements req)"
    by (simp add: validPropertySet_def)
  have E: "validPropertySet EMPTY" by (simp add: EMPTY_def)
  show ?thesis
  proof (cases op)
    case (PhysicalHashJoin node)
    with assms(1) have j: "visitPhysicalHashJoin env req node ctx = Inr alts"
      by (simp add: getOutputInputProps_def)
    from visitPhysicalHashJoin_via_requirements [OF j] obtain props where
      v: "visitJoinRequirements req ctx props = Inr alts"
      and e: "\<forall>p\<in>set props. fst p = EMPTY \<and> (\<exists>a b. snd p = [a, b] \<and> sortProperty a = [] \<and> sortProperty b = []
        \<and> validPropertySet a \<and> validPropertySet b)" by blast
    from e E have "\<forall>p\<in>set props. validPropertySet (fst p) \<and> (\<forall>c\<in>set (snd p). validPropertySet c)"
      by fastforce
    from visitJoinRequirements_valid [OF v this assms(2)] show ?thesis .
  next
    case (PhysicalHashAggregate node)
    with assms(1) have a: "visitPhysicalHashAggregate env req node ctx = Inr alts"
      by (simp add: getOutputInputProps_def)
    show ?thesis
    proof (cases "getRequiredLocalDesc req")
      case None
      from a assms(2) E show ?thesis
        unfolding visitPhysicalHashAggregate_no_local [OF None]
        by (auto simp: EMPTY_def split: if_splits)
    next
      case (Some d)
      from a assms(2) dr show ?thesis
        unfolding visitPhysicalHashAggregate_local [OF Some]
        by (auto split: if_splits)
    qed
  next
    case (PhysicalAnalytic node)
    with assms(1,2) show ?thesis
      by (auto simp: getOutputInputProps_def visitPhysicalAnalytic_def bindE_Inr_iff Let_def
          propertySetOf_def createHashDistributionSpec_def createGatherDistributionSpec_def
          dest!: newHashDistributionDesc_Inr split: option.splits if_splits prod.splits)
  next
    case (PhysicalOlapScan node)
    with assms(1,2,4) dr E show ?thesis
      by (auto simp: getOutputInputProps_def leaf_defs Let_def
          createPropertySetByDistribution_def propertySetOfDistribution_def validPropertySet_def
          split: option.splits if_splits)
  next
    case (PhysicalTopN node)
    with assms(1,2) E show ?thesis
      by (auto simp: getOutputInputProps_def leaf_defs Let_def EMPTY_def newPhysicalPropertySet_def
          propertySetOf_def propertySetOfSort_def createGatherDistributionSpec_def
          createLimitGatherProperty_def createGatherDistributionSpecLimit_def split: if_splits)
  next
    case PhysicalUnion
    with assms(1,2) show ?thesis
      by (auto simp: getOutputInputProps_def processSetOperationChildProperty_def Let_def EMPTY_def
          createLimitGatherProperty_def propertySetOf_def createGatherDistributionSpecLimit_def
          split: if_splits)
  next
    case PhysicalExcept
    with assms(1,2) show ?thesis
      by (auto simp: getOutputInputProps_def processSetOperationChildProperty_def Let_def EMPTY_def
          createLimitGatherProperty_def propertySetOf_def createGatherDistributionSpecLimit_def
          split: if_splits)
  next
    case PhysicalIntersect
    with assms(1,2) show ?thesis
      by (auto simp: getOutputInputProps_def processSetOperationChildProperty_def Let_def EMPTY_def
          createLimitGatherProperty_def propertySetOf_def createGatherDistributionSpecLimit_def
          split: if_splits)
  qed (use assms(1,2) dr E in \<open>auto simp: getOutputInputProps_def leaf_defs passthrough_defs Let_def
        propertySetOfDistribution_def createGatherDistributionSpec_def split: if_splits\<close>)
qed

section \<open>Properties of the derivation\<close>

text \<open>
  C1, as the specification words it, asks that a surviving alternative's distribution on the
  qualifying side be a column superset of the required columns \<open>R\<close>. The code tests
  \<open>requireDistributionDesc.getColumns().containsAll(desc.getColumns())\<close>, the other
  direction. With \<open>R = [1, 2]\<close> coming from the left child only and a left scan bucketed on
  column 1, the bucket-shuffle alternative survives with \<open>Hash(Local, [1])\<close> on the left,
  and \<open>{1}\<close> is not a superset of \<open>{1, 2}\<close>.
\<close>

theorem join_local_requirement_filtering_counterexample:
  "distributionProperty exampleLocalRequirement = HASH (HashDistributionDesc [1, 2] LOCAL)
   \<and> contains (getChildOutputColumns exampleJoinContext 0) (set [1, 2])
   \<and> \<not> contains (getChildOutputColumns exampleJoinContext 1) (set [1, 2])
   \<and> getOutputInputProps exampleEnvWithScan exampleLocalRequirement
        (PhysicalHashJoin exampleInnerJoin) exampleJoinContext
      = Inr [(exampleLocalRequirement,
               [exampleLocalRequirement,
                \<lparr>distributionProperty = REPLICATED, sortProperty = []\<rparr>]),
             (exampleLocalRequirement,
               [\<lparr>distributionProperty = HASH (HashDistributionDesc [1] LOCAL), sortProperty = []\<rparr>,
                \<lparr>distributionProperty = HASH (HashDistributionDesc [10] SHUFFLE_JOIN),
                  sortProperty = []\<rparr>])]
   \<and> \<not> set [1, 2 :: int] \<subseteq> set [1]"
  by (simp add: exampleEnv_def exampleScan_def exampleEnvWithScan_def childWithoutLimit_def
      exampleJoinContext_def exampleInnerJoin_def exampleLocalRequirement_def model_defs)

text \<open>
  C1 (amended). Local-requirement filtering on a hash join whose required property is
  \<open>Hash(Local, R)\<close>: when \<open>R\<close> is contained in both children's output columns or in
  neither, \<open>visitJoinRequirements\<close> returns the empty list, whatever alternatives it is
  given, and so does every derivation that returns. When \<open>R\<close> is contained in the left
  child's output only, every returned alternative has two child requirements and the left
  one is \<open>Hash(Local, cols)\<close> with every column of \<open>cols\<close> among \<open>R\<close> (an alternative
  that asked for Any on the left now carries the requirement itself, \<open>cols = R\<close>); when
  \<open>R\<close> is contained in the right child's output only, the same holds of the right child
  requirement.
\<close>

theorem join_local_requirement_filtering:
  assumes "distributionProperty requirements = HASH (HashDistributionDesc R LOCAL)"
  shows "(contains (getChildOutputColumns context 0) (set R)
            = contains (getChildOutputColumns context 1) (set R) \<longrightarrow>
          visitJoinRequirements requirements context props = Inr []
          \<and> (\<forall>res. getOutputInputProps env requirements (PhysicalHashJoin node) context = Inr res
                \<longrightarrow> res = []))
       \<and> (contains (getChildOutputColumns context 0) (set R)
            \<and> \<not> contains (getChildOutputColumns context 1) (set R) \<longrightarrow>
          (\<forall>res alt. getOutputInputProps env requirements (PhysicalHashJoin node) context = Inr res
              \<and> alt \<in> set res \<longrightarrow>
            (\<exists>left right cols. snd alt = [left, right]
               \<and> distributionProperty left = HASH (HashDistributionDesc cols LOCAL)
               \<and> set cols \<subseteq> set R)))
       \<and> (\<not> contains (getChildOutputColumns context 0) (set R)
            \<and> contains (getChildOutputColumns context 1) (set R) \<longrightarrow>
          (\<forall>res alt. getOutputInputProps env requirements (PhysicalHashJoin node) context = Inr res
              \<and> alt \<in> set res \<longrightarrow>
            (\<exists>left right cols. snd alt = [left, right]
               \<and> distributionProperty right = HASH (HashDistributionDesc cols LOCAL)
               \<and> set cols \<subseteq> set R)))"
proof -
  let ?d = "HashDistributionDesc R LOCAL"
  from assms have d: "getRequiredLocalDesc requirements = Some ?d"
    by (simp add: getRequiredLocalDesc_Some)
  have top: "getOutputInputProps env requirements (PhysicalHashJoin node) context
      = visitPhysicalHashJoin env requirements node context"
    by (simp add: getOutputInputProps_def)
  have amb: "visitJoinRequirements requirements context ps = Inr []"
    if "contains (getChildOutputColumns context 0) (set R)
            = contains (getChildOutputColumns context 1) (set R)" for ps
    using visitJoinRequirements_ambiguous [OF d] that by simp
  have A: "res = []"
    if "contains (getChildOutputColumns context 0) (set R)
            = contains (getChildOutputColumns context 1) (set R)"
      and "visitPhysicalHashJoin env requirements node context = Inr res" for res
  proof -
    from visitPhysicalHashJoin_via_requirements [OF that(2)] obtain ps where
      "visitJoinRequirements requirements context ps = Inr res" by blast
    with amb [OF that(1), of ps] show ?thesis by simp
  qed
  have L: "\<exists>left right cols. snd alt = [left, right]
               \<and> distributionProperty left = HASH (HashDistributionDesc cols LOCAL)
               \<and> set cols \<subseteq> set R"
    if "contains (getChildOutputColumns context 0) (set R)"
      "\<not> contains (getChildOutputColumns context 1) (set R)"
      "visitPhysicalHashJoin env requirements node context = Inr res" "alt \<in> set res" for res alt
  proof -
    from visitPhysicalHashJoin_via_requirements [OF that(3)] obtain ps where
      ps: "visitJoinRequirements requirements context ps = Inr res" by blast
    from visitJoinRequirements_left [OF d _ _ ps that(4)] that(1,2)
    obtain left cols where "getAt (snd alt) 0 = Inr left"
      "distributionProperty left = HASH (HashDistributionDesc cols LOCAL)" "set cols \<subseteq> set R"
      by auto
    moreover from visitPhysicalHashJoin_shape [OF that(3,4)]
    obtain a b where "snd alt = [a, b]" by blast
    ultimately show ?thesis by auto
  qed
  have Rt: "\<exists>left right cols. snd alt = [left, right]
               \<and> distributionProperty right = HASH (HashDistributionDesc cols LOCAL)
               \<and> set cols \<subseteq> set R"
    if "\<not> contains (getChildOutputColumns context 0) (set R)"
      "contains (getChildOutputColumns context 1) (set R)"
      "visitPhysicalHashJoin env requirements node context = Inr res" "alt \<in> set res" for res alt
  proof -
    from visitPhysicalHashJoin_via_requirements [OF that(3)] obtain ps where
      ps: "visitJoinRequirements requirements context ps = Inr res" by blast
    from visitJoinRequirements_right [OF d _ _ ps that(4)] that(1,2)
    obtain right cols where "getAt (snd alt) 1 = Inr right"
      "distributionProperty right = HASH (HashDistributionDesc cols LOCAL)" "set cols \<subseteq> set R"
      by auto
    moreover from visitPhysicalHashJoin_shape [OF that(3,4)]
    obtain a b where "snd alt = [a, b]" by blast
    ultimately show ?thesis by auto
  qed
  show ?thesis
    unfolding top using amb A L Rt by blast
qed

text \<open>C1 on the join of the example scan with a second input, required columns 1 and 2.\<close>

theorem join_local_requirement_filtering_witness:
  "distributionProperty exampleLocalRequirement = HASH (HashDistributionDesc [1, 2] LOCAL)
   \<and> contains (getChildOutputColumns exampleJoinContext 0) (set [1, 2])
   \<and> \<not> contains (getChildOutputColumns exampleJoinContext 1) (set [1, 2])
   \<and> getOutputInputProps exampleEnvWithScan exampleLocalRequirement
        (PhysicalHashJoin exampleInnerJoin) exampleJoinContext
      = Inr [(exampleLocalRequirement,
               [exampleLocalRequirement,
                \<lparr>distributionProperty = REPLICATED, sortProperty = []\<rparr>]),
             (exampleLocalRequirement,
               [\<lparr>distributionProperty = HASH (HashDistributionDesc [1] LOCAL), sortProperty = []\<rparr>,
                \<lparr>distributionProperty = HASH (HashDistributionDesc [10] SHUFFLE_JOIN),
                  sortProperty = []\<rparr>])]
   \<and> (\<exists>left right cols.
         snd (exampleLocalRequirement,
               [exampleLocalRequirement,
                \<lparr>distributionProperty = REPLICATED, sortProperty = []\<rparr>]) = [left, right]
         \<and> distributionProperty left = HASH (HashDistributionDesc cols LOCAL)
         \<and> set cols \<subseteq> set [1, 2])
   \<and> (\<exists>left right cols.
         snd (exampleLocalRequirement,
               [\<lparr>distributionProperty = HASH (HashDistributionDesc [1] LOCAL), sortProperty = []\<rparr>,
                \<lparr>distributionProperty = HASH (HashDistributionDesc [10] SHUFFLE_JOIN),
                  sortProperty = []\<rparr>]) = [left, right]
         \<and> distributionProperty left = HASH (HashDistributionDesc cols LOCAL)
         \<and> set cols \<subseteq> set [1, 2])"
proof -
  have h: "distributionProperty exampleLocalRequirement = HASH (HashDistributionDesc [1, 2] LOCAL)"
    by (simp add: exampleLocalRequirement_def)
  have c: "contains (getChildOutputColumns exampleJoinContext 0) (set [1, 2])"
    "\<not> contains (getChildOutputColumns exampleJoinContext 1) (set [1, 2])"
    by (simp_all add: exampleJoinContext_def contains_def)
  have e: "getOutputInputProps exampleEnvWithScan exampleLocalRequirement
        (PhysicalHashJoin exampleInnerJoin) exampleJoinContext
      = Inr [(exampleLocalRequirement,
               [exampleLocalRequirement,
                \<lparr>distributionProperty = REPLICATED, sortProperty = []\<rparr>]),
             (exampleLocalRequirement,
               [\<lparr>distributionProperty = HASH (HashDistributionDesc [1] LOCAL), sortProperty = []\<rparr>,
                \<lparr>distributionProperty = HASH (HashDistributionDesc [10] SHUFFLE_JOIN),
                  sortProperty = []\<rparr>])]"
    by (simp add: exampleEnv_def exampleScan_def exampleEnvWithScan_def childWithoutLimit_def
      exampleJoinContext_def exampleInnerJoin_def exampleLocalRequirement_def model_defs)
  from join_local_requirement_filtering [OF h, of exampleJoinContext "[]" exampleEnvWithScan
      exampleInnerJoin] c e
  show ?thesis using h by auto
qed

text \<open>
  C2, as worded, says that no returned alternative has an output distribution
  \<open>Hash(Local, ...)\<close>. An aggregate grouping by column 1 and a window partitioned by
  column 1 both return a second, single-phase alternative whose output is
  \<open>Hash(Local, [1])\<close>, and a values operator under a local requirement returns that
  requirement as its output.
\<close>

theorem local_output_origin_counterexample:
  "getOutputInputProps exampleEnv EMPTY (PhysicalHashAggregate exampleGroupingAggregate)
     exampleUnaryContext
     = Inr [(\<lparr>distributionProperty = HASH (HashDistributionDesc [1] SHUFFLE_AGG), sortProperty = []\<rparr>,
             [\<lparr>distributionProperty = HASH (HashDistributionDesc [1] SHUFFLE_AGG), sortProperty = []\<rparr>]),
            (\<lparr>distributionProperty = HASH (HashDistributionDesc [1] LOCAL), sortProperty = []\<rparr>,
             [\<lparr>distributionProperty = HASH (HashDistributionDesc [1] LOCAL), sortProperty = []\<rparr>])]
   \<and> isLocal (distributionProperty
        \<lparr>distributionProperty = HASH (HashDistributionDesc [1] LOCAL), sortProperty = []\<rparr>)
   \<and> getOutputInputProps exampleEnv EMPTY (PhysicalAnalytic exampleWindow) exampleUnaryContext
     = Inr [(\<lparr>distributionProperty = HASH (HashDistributionDesc [1] SHUFFLE_AGG),
               sortProperty = [Ordering 1 True True, Ordering 2 False False]\<rparr>,
             [\<lparr>distributionProperty = HASH (HashDistributionDesc [1] SHUFFLE_AGG),
                sortProperty = [Ordering 1 True True, Ordering 2 False False]\<rparr>]),
            (\<lparr>distributionProperty = HASH (HashDistributionDesc [1] LOCAL),
               sortProperty = [Ordering 1 True True, Ordering 2 False False]\<rparr>,
             [\<lparr>distributionProperty = HASH (HashDistributionDesc [1] LOCAL),
                sortProperty = [Ordering 1 True True, Ordering 2 False False]\<rparr>])]
   \<and> getOutputInputProps exampleEnv exampleLocalRequirement PhysicalValues exampleUnaryContext
     = Inr [(exampleLocalRequirement, [])]
   \<and> isLocal (distributionProperty exampleLocalRequirement)"
  by (simp add: exampleEnv_def exampleUnaryContext_def childWithoutLimit_def
      exampleGroupingAggregate_def exampleLocalRequirement_def exampleWindow_def getOutputInputProps_def aggregate_defs
      getRequiredLocalDesc_def visitPhysicalAnalytic_def passthrough_defs distributeRequirements_def)

text \<open>
  C2 (amended). An alternative of a returned list has an output distribution
  \<open>Hash(Local, cols)\<close> only in one of four ways: a local requirement is active and the
  output carries the requirement's own distribution; the operator is a hash aggregate that
  is not of local type, has grouping columns, no local requirement is active, and \<open>cols\<close>
  are the grouping columns; the operator is a window with partition columns \<open>cols\<close>, not
  empty; or the operator is an OLAP scan, no local requirement is active, and the output is
  the scan's own hash distribution. For every other operator kind without an active local
  requirement no output is \<open>Hash(Local, ...)\<close>.
\<close>

theorem local_output_origin:
  assumes "getOutputInputProps env requirements op context = Inr alts" and "alt \<in> set alts"
    and "isLocal (distributionProperty (fst alt))"
  shows "(getRequiredLocalDesc requirements \<noteq> None
            \<and> distributionProperty (fst alt) = distributionProperty requirements)
       \<or> (\<exists>node. op = PhysicalHashAggregate node \<and> getRequiredLocalDesc requirements = None
            \<and> \<not> aggTypeIsLocal node \<and> getPartitionByColumns node \<noteq> []
            \<and> distributionProperty (fst alt)
                = HASH (HashDistributionDesc (getPartitionByColumns node) LOCAL))
       \<or> (\<exists>node cols ords. op = PhysicalAnalytic node
            \<and> partitionOrderings (getPartitionExpressions node) = Inr (cols, ords) \<and> cols \<noteq> []
            \<and> distributionProperty (fst alt) = HASH (HashDistributionDesc cols LOCAL))
       \<or> (\<exists>node. op = PhysicalOlapScan node \<and> getRequiredLocalDesc requirements = None
            \<and> distributionProperty (fst alt) = HASH (getDistributionSpec node))"
proof (cases op)
  case (PhysicalHashJoin node)
  with assms(1) have j: "visitPhysicalHashJoin env requirements node context = Inr alts"
    by (simp add: getOutputInputProps_def)
  from visitPhysicalHashJoin_via_requirements [OF j] obtain props where
    v: "visitJoinRequirements requirements context props = Inr alts"
    and e: "\<forall>p\<in>set props. fst p = EMPTY" by blast
  show ?thesis
  proof (cases "getRequiredLocalDesc requirements")
    case None
    with v e assms(2,3) show ?thesis
      by (auto simp: visitJoinRequirements_none EMPTY_def)
  next
    case (Some d)
    let ?L = "contains (getChildOutputColumns context 0) (set (getColumns d))"
    let ?R = "contains (getChildOutputColumns context 1) (set (getColumns d))"
    consider "?L = ?R" | "?L" "\<not> ?R" | "\<not> ?L" "?R" by blast
    then have "fst alt = distributeRequirements requirements"
    proof cases
      case 1
      with Some v assms(2) show ?thesis by (simp add: visitJoinRequirements_ambiguous)
    next
      case 2
      from visitJoinRequirements_left [OF Some 2 v assms(2)] show ?thesis by simp
    next
      case 3
      from visitJoinRequirements_right [OF Some 3 v assms(2)] show ?thesis by simp
    qed
    with Some show ?thesis by simp
  qed
next
  case (PhysicalHashAggregate node)
  with assms visitPhysicalHashAggregate_local_output [of env requirements node "context" alts alt]
  show ?thesis by (auto simp: getOutputInputProps_def)
next
  case (PhysicalAnalytic node)
  with assms visitPhysicalAnalytic_local_output [of requirements node alts alt]
  show ?thesis by (auto simp: getOutputInputProps_def)
next
  case (PhysicalOlapScan node)
  with assms show ?thesis
    by (auto simp: getOutputInputProps_def leaf_defs Let_def EMPTY_def
        createPropertySetByDistribution_def propertySetOfDistribution_def
        split: option.splits if_splits)
next
  case (PhysicalTopN node)
  with assms show ?thesis
    by (auto simp: getOutputInputProps_def leaf_defs Let_def EMPTY_def newPhysicalPropertySet_def
        propertySetOf_def propertySetOfSort_def createGatherDistributionSpec_def
        split: if_splits)
next
  case PhysicalUnion
  with assms processSetOperationChildProperty_children [of alt requirements "context"]
  show ?thesis by (auto simp: getOutputInputProps_def EMPTY_def)
next
  case PhysicalExcept
  with assms processSetOperationChildProperty_children [of alt requirements "context"]
  show ?thesis by (auto simp: getOutputInputProps_def EMPTY_def)
next
  case PhysicalIntersect
  with assms processSetOperationChildProperty_children [of alt requirements "context"]
  show ?thesis by (auto simp: getOutputInputProps_def EMPTY_def)
qed (use assms in \<open>auto simp: getOutputInputProps_def leaf_defs passthrough_defs Let_def EMPTY_def
      getRequiredLocalDesc_None split: if_splits\<close>)

text \<open>C2 on the grouping aggregate: its second alternative is the local one.\<close>

theorem local_output_origin_witness:
  "getOutputInputProps exampleEnv EMPTY (PhysicalHashAggregate exampleGroupingAggregate)
     exampleUnaryContext
     = Inr [(\<lparr>distributionProperty = HASH (HashDistributionDesc [1] SHUFFLE_AGG), sortProperty = []\<rparr>,
             [\<lparr>distributionProperty = HASH (HashDistributionDesc [1] SHUFFLE_AGG), sortProperty = []\<rparr>]),
            (\<lparr>distributionProperty = HASH (HashDistributionDesc [1] LOCAL), sortProperty = []\<rparr>,
             [\<lparr>distributionProperty = HASH (HashDistributionDesc [1] LOCAL), sortProperty = []\<rparr>])]
   \<and> isLocal (distributionProperty
        \<lparr>distributionProperty = HASH (HashDistributionDesc [1] LOCAL), sortProperty = []\<rparr>)
   \<and> getRequiredLocalDesc EMPTY = None
   \<and> \<not> aggTypeIsLocal exampleGroupingAggregate
   \<and> getPartitionByColumns exampleGroupingAggregate = [1]"
proof -
  let ?S = "(\<lparr>distributionProperty = HASH (HashDistributionDesc [1] SHUFFLE_AGG), sortProperty = []\<rparr>,
             [\<lparr>distributionProperty = HASH (HashDistributionDesc [1] SHUFFLE_AGG), sortProperty = []\<rparr>])"
  let ?L = "(\<lparr>distributionProperty = HASH (HashDistributionDesc [1] LOCAL), sortProperty = []\<rparr>,
             [\<lparr>distributionProperty = HASH (HashDistributionDesc [1] LOCAL), sortProperty = []\<rparr>])"
  have e: "getOutputInputProps exampleEnv EMPTY (PhysicalHashAggregate exampleGroupingAggregate)
     exampleUnaryContext = Inr [?S, ?L]"
    by (simp add: exampleEnv_def exampleUnaryContext_def childWithoutLimit_def
      exampleGroupingAggregate_def getOutputInputProps_def aggregate_defs
        getRequiredLocalDesc_def)
  have m: "?L \<in> set [?S, ?L]" by simp
  have l: "isLocal (distributionProperty (fst ?L))" by simp
  have g: "getPartitionByColumns exampleGroupingAggregate = [1]"
    by (simp add: exampleGroupingAggregate_def)
  from local_output_origin [OF e m l] e g show ?thesis
    by (auto simp: EMPTY_def getRequiredLocalDesc_def)
qed



text \<open>
  C4. For an inner join with at least one equality conjunct, a hint that is neither
  BROADCAST nor SHUFFLE (in particular no hint), no child limits and no active local
  requirement, a returned list starts with the broadcast alternative (Any on the left,
  Replicated on the right) followed by the shuffle alternative,
  \<open>Hash(ShuffleJoin, leftCols)\<close> on the left and \<open>Hash(ShuffleJoin, rightCols)\<close> on the
  right, the two column lists of equal length; further alternatives may follow. The
  derivation returns unless a later step fails fast with \<open>IllegalStateException\<close>: the
  \<open>checkState\<close> of \<open>tryColocate\<close> on the two scans' bucket column counts, or the
  constructor of the right side's \<open>Hash(ShuffleJoin)\<close> in \<open>tryBucketShuffle\<close>.
\<close>

theorem inner_equi_join_broadcast_then_shuffle:
  assumes "getRequiredLocalDesc requirements = None"
    and "\<not> hasLimit (getChildOperator context 0)" and "\<not> hasLimit (getChildOperator context 1)"
    and "getJoinType node = INNER_JOIN" and "equalOnPredicate node \<noteq> []"
    and "\<not> equalsIgnoreCase ''BROADCAST'' (getJoinHint node)"
    and "\<not> equalsIgnoreCase ''SHUFFLE'' (getJoinHint node)"
  shows "(case getOutputInputProps env requirements (PhysicalHashJoin node) context of
            Inr alts \<Rightarrow> \<exists>rest. alts =
               [(EMPTY, [EMPTY, \<lparr>distributionProperty = REPLICATED, sortProperty = []\<rparr>]),
                (EMPTY, [\<lparr>distributionProperty = HASH (HashDistributionDesc
                            (map leftColumn (equalOnPredicate node)) SHUFFLE_JOIN),
                          sortProperty = []\<rparr>,
                         \<lparr>distributionProperty = HASH (HashDistributionDesc
                            (map rightColumn (equalOnPredicate node)) SHUFFLE_JOIN),
                          sortProperty = []\<rparr>])] @ rest
          | Inl e \<Rightarrow> e = IllegalStateException
               \<and> (tryColocate env (map leftColumn (equalOnPredicate node))
                     (map rightColumn (equalOnPredicate node)) = Inl IllegalStateException
                  \<or> tryBucketShuffle env node (map leftColumn (equalOnPredicate node))
                       (map rightColumn (equalOnPredicate node)) = Inl IllegalStateException))
         \<and> length (map leftColumn (equalOnPredicate node))
             = length (map rightColumn (equalOnPredicate node))"
proof -
  from assms(4,5,6) have n: "\<not> (isCrossJoin (getJoinType node)
     \<or> NULL_AWARE_LEFT_ANTI_JOIN = getJoinType node
     \<or> (isInnerJoin (getJoinType node) \<and> equalOnPredicate node = [])
     \<or> equalsIgnoreCase ''BROADCAST'' (getJoinHint node))"
    by (simp add: isCrossJoin_def)
  from assms(4,7) have k: "\<not> (isRightJoin (getJoinType node) \<or> isFullOuterJoin (getJoinType node)
           \<or> equalsIgnoreCase ''SHUFFLE'' (getJoinHint node))"
    by (simp add: isRightJoin_def isFullOuterJoin_def)
  have len: "length (map leftColumn (equalOnPredicate node))
             = length (map rightColumn (equalOnPredicate node))"
    by simp
  from assms(5) have ne: "map leftColumn (equalOnPredicate node) \<noteq> []" by simp
  from shuffleJoinStep_no_local [OF assms(1) len ne assms(7), where env = env and ctx = "context"
      and before = "[(EMPTY, [newPhysicalPropertySet, propertySetOfDistribution createReplicatedDistributionSpec])]"]
  show ?thesis
    unfolding getOutputInputProps_def Operator.case visitPhysicalHashJoin_shuffle [OF assms(2,3) n]
    using k
    by (simp add: newPhysicalPropertySet_def EMPTY_def propertySetOfDistribution_def
        createReplicatedDistributionSpec_def split: sum.splits)
qed

text \<open>C4 on the inner join of the example: column 1 on the left equals column 10 on the right.\<close>

theorem inner_equi_join_broadcast_then_shuffle_witness:
  "getRequiredLocalDesc EMPTY = None
   \<and> \<not> hasLimit (getChildOperator exampleJoinContext 0)
   \<and> \<not> hasLimit (getChildOperator exampleJoinContext 1)
   \<and> getJoinType exampleInnerJoin = INNER_JOIN
   \<and> equalOnPredicate exampleInnerJoin \<noteq> []
   \<and> getJoinHint exampleInnerJoin = None
   \<and> (\<exists>rest. getOutputInputProps exampleEnvWithScan EMPTY (PhysicalHashJoin exampleInnerJoin)
         exampleJoinContext =
        Inr ([(EMPTY, [EMPTY, \<lparr>distributionProperty = REPLICATED, sortProperty = []\<rparr>]),
              (EMPTY, [\<lparr>distributionProperty = HASH (HashDistributionDesc [1] SHUFFLE_JOIN),
                         sortProperty = []\<rparr>,
                       \<lparr>distributionProperty = HASH (HashDistributionDesc [10] SHUFFLE_JOIN),
                         sortProperty = []\<rparr>])] @ rest))"
proof -
  have h: "getRequiredLocalDesc EMPTY = None"
    "\<not> hasLimit (getChildOperator exampleJoinContext 0)"
    "\<not> hasLimit (getChildOperator exampleJoinContext 1)"
    "getJoinType exampleInnerJoin = INNER_JOIN"
    "equalOnPredicate exampleInnerJoin \<noteq> []"
    "\<not> equalsIgnoreCase ''BROADCAST'' (getJoinHint exampleInnerJoin)"
    "\<not> equalsIgnoreCase ''SHUFFLE'' (getJoinHint exampleInnerJoin)"
    by (simp_all add: exampleEnv_def exampleScan_def exampleEnvWithScan_def childWithoutLimit_def
      exampleJoinContext_def exampleInnerJoin_def getRequiredLocalDesc_def EMPTY_def equalsIgnoreCase_def)
  have e: "tryColocate exampleEnvWithScan (map leftColumn (equalOnPredicate exampleInnerJoin))
                    (map rightColumn (equalOnPredicate exampleInnerJoin)) = Inr []
    \<and> tryBucketShuffle exampleEnvWithScan exampleInnerJoin
          (map leftColumn (equalOnPredicate exampleInnerJoin))
          (map rightColumn (equalOnPredicate exampleInnerJoin)) \<noteq> Inl IllegalStateException"
    by (simp add: exampleEnv_def exampleScan_def exampleEnvWithScan_def childWithoutLimit_def
      exampleJoinContext_def exampleInnerJoin_def model_defs)
  have m: "map leftColumn (equalOnPredicate exampleInnerJoin) = [1]"
    "map rightColumn (equalOnPredicate exampleInnerJoin) = [10]"
    "getJoinHint exampleInnerJoin = None"
    by (simp_all add: exampleEnv_def exampleScan_def exampleEnvWithScan_def childWithoutLimit_def
      exampleJoinContext_def exampleInnerJoin_def)
  from inner_equi_join_broadcast_then_shuffle [OF h, of exampleEnvWithScan] e h(1-5) m
  show ?thesis by (auto split: sum.splits)
qed

text \<open>
  C5. When the left child of a hash join carries a row limit \<open>L\<close> and no local
  requirement is active, the returned list is exactly one alternative: Gather with limit
  \<open>L\<close> on the left child and Replicated on the right child; no shuffle, colocate or
  bucket-shuffle alternative is produced.
\<close>

theorem join_left_limit:
  assumes "hasLimit (getChildOperator context 0)"
    and "getRequiredLocalDesc requirements = None"
  shows "getOutputInputProps env requirements (PhysicalHashJoin node) context
           = Inr [(EMPTY,
                   [\<lparr>distributionProperty = GATHER (Some (getLimit (getChildOperator context 0))),
                      sortProperty = []\<rparr>,
                    \<lparr>distributionProperty = REPLICATED, sortProperty = []\<rparr>])]"
proof -
  from assms(1) have "hasLimit (getChildOperator context 0) \<or> hasLimit (getChildOperator context 1)"
    by simp
  from visitPhysicalHashJoin_limit [OF this] assms(1) show ?thesis
    by (simp add: getOutputInputProps_def visitJoinRequirements_none [OF assms(2)]
        createLimitGatherProperty_def propertySetOf_def createGatherDistributionSpecLimit_def
        propertySetOfDistribution_def createReplicatedDistributionSpec_def)
qed

text \<open>C5 with a limit of 10 on the left child.\<close>

theorem join_left_limit_witness:
  "hasLimit (getChildOperator exampleJoinContextLeftLimit 0)
   \<and> getLimit (getChildOperator exampleJoinContextLeftLimit 0) = 10
   \<and> getRequiredLocalDesc EMPTY = None
   \<and> getOutputInputProps exampleEnvWithScan EMPTY (PhysicalHashJoin exampleInnerJoin)
        exampleJoinContextLeftLimit
      = Inr [(EMPTY,
              [\<lparr>distributionProperty = GATHER (Some 10), sortProperty = []\<rparr>,
               \<lparr>distributionProperty = REPLICATED, sortProperty = []\<rparr>])]"
proof -
  have h: "hasLimit (getChildOperator exampleJoinContextLeftLimit 0)"
    "getRequiredLocalDesc EMPTY = None"
    by (simp_all add: exampleEnv_def exampleScan_def exampleEnvWithScan_def childWithoutLimit_def
      exampleJoinContext_def exampleInnerJoin_def
      exampleJoinContextLeftLimit_def childWithLimit10_def getRequiredLocalDesc_def EMPTY_def)
  have l: "getLimit (getChildOperator exampleJoinContextLeftLimit 0) = 10"
    by (simp add: exampleEnv_def exampleScan_def exampleEnvWithScan_def childWithoutLimit_def
      exampleJoinContext_def exampleInnerJoin_def
      exampleJoinContextLeftLimit_def childWithLimit10_def)
  from join_left_limit [OF h, of exampleEnvWithScan exampleInnerJoin] h l show ?thesis by simp
qed

text \<open>
  C6, as worded, holds "regardless of the required property, session configuration and
  child limit facts". A scalar aggregate of local type returns the unconstrained
  alternative; a global, unsplit scalar aggregate over a child with limit 10 asks for
  \<open>Gather(10)\<close> from the child and nothing on the output; and under an active local
  requirement the Gather alternative is filtered out and the list is empty.
\<close>

theorem scalar_aggregate_gather_counterexample:
  "getPartitionByColumns exampleScalarLocalAggregate = []
   \<and> getOutputInputProps exampleEnv EMPTY (PhysicalHashAggregate exampleScalarLocalAggregate)
        exampleUnaryContext
      = Inr [(EMPTY, [EMPTY])]
   \<and> \<not> isGather (distributionProperty EMPTY)
   \<and> getPartitionByColumns exampleScalarGlobalAggregate = []
   \<and> getOutputInputProps exampleEnv EMPTY (PhysicalHashAggregate exampleScalarGlobalAggregate)
        exampleUnaryContextChildLimit
      = Inr [(EMPTY, [\<lparr>distributionProperty = GATHER (Some 10), sortProperty = []\<rparr>])]
   \<and> getOutputInputProps exampleEnv exampleLocalRequirement
        (PhysicalHashAggregate exampleScalarGlobalAggregate) exampleUnaryContext
      = Inr []"
  by (simp add: exampleEnv_def childWithoutLimit_def childWithLimit10_def
      exampleUnaryContext_def exampleUnaryContextChildLimit_def exampleScalarGlobalAggregate_def
      exampleScalarLocalAggregate_def exampleLocalRequirement_def getOutputInputProps_def aggregate_defs
      getRequiredLocalDesc_def bindE_def getAt_def)

text \<open>
  C6 (amended). For a hash aggregate without grouping columns that is not of local type,
  when no local requirement is active and neither of the two earlier branches applies (the
  single-instance short cut for a global unsplit aggregate under aggregation stage 0, and
  the child limit of a global unsplit aggregate), the returned list is exactly one
  alternative whose output and whose single child requirement are both Gather without a
  limit.
\<close>

theorem scalar_aggregate_gather:
  assumes "getPartitionByColumns node = []" and "\<not> aggTypeIsLocal node"
    and "getRequiredLocalDesc requirements = None"
    and "\<not> (getNewPlannerAggStage env = 0 \<and> isExecuteInOneInstance context
            \<and> aggTypeIsGlobal node \<and> \<not> aggIsSplit node)"
    and "\<not> (hasLimit (getChildOperator context 0) \<and> aggTypeIsGlobal node \<and> \<not> aggIsSplit node)"
  shows "getOutputInputProps env requirements (PhysicalHashAggregate node) context
           = Inr [(\<lparr>distributionProperty = GATHER None, sortProperty = []\<rparr>,
                   [\<lparr>distributionProperty = GATHER None, sortProperty = []\<rparr>])]"
  using assms(1,2,4,5)
  by (auto simp: getOutputInputProps_def visitPhysicalHashAggregate_no_local [OF assms(3)])

text \<open>C6 on a global scalar aggregate whose plan does not run in one instance.\<close>

theorem scalar_aggregate_gather_witness:
  "getPartitionByColumns exampleScalarGlobalAggregate = []
   \<and> \<not> aggTypeIsLocal exampleScalarGlobalAggregate
   \<and> getRequiredLocalDesc exampleSortedGatherRequirement = None
   \<and> \<not> isExecuteInOneInstance exampleUnaryContext
   \<and> \<not> hasLimit (getChildOperator exampleUnaryContext 0)
   \<and> getOutputInputProps exampleEnv exampleSortedGatherRequirement
        (PhysicalHashAggregate exampleScalarGlobalAggregate) exampleUnaryContext
      = Inr [(\<lparr>distributionProperty = GATHER None, sortProperty = []\<rparr>,
              [\<lparr>distributionProperty = GATHER None, sortProperty = []\<rparr>])]"
proof -
  have h: "getPartitionByColumns exampleScalarGlobalAggregate = []"
    "\<not> aggTypeIsLocal exampleScalarGlobalAggregate"
    "getRequiredLocalDesc exampleSortedGatherRequirement = None"
    "\<not> (getNewPlannerAggStage exampleEnv = 0 \<and> isExecuteInOneInstance exampleUnaryContext
            \<and> aggTypeIsGlobal exampleScalarGlobalAggregate \<and> \<not> aggIsSplit exampleScalarGlobalAggregate)"
    "\<not> (hasLimit (getChildOperator exampleUnaryContext 0)
            \<and> aggTypeIsGlobal exampleScalarGlobalAggregate \<and> \<not> aggIsSplit exampleScalarGlobalAggregate)"
    by (simp_all add: exampleEnv_def childWithoutLimit_def exampleUnaryContext_def
      exampleScalarGlobalAggregate_def exampleSortedGatherRequirement_def getRequiredLocalDesc_def)
  have k: "\<not> isExecuteInOneInstance exampleUnaryContext"
    "\<not> hasLimit (getChildOperator exampleUnaryContext 0)"
    by (simp_all add: exampleEnv_def childWithoutLimit_def exampleUnaryContext_def
      exampleScalarGlobalAggregate_def exampleSortedGatherRequirement_def)
  from scalar_aggregate_gather [OF h] h(1,2,3) k show ?thesis by simp
qed

text \<open>
  C7, as worded, gives every pass-through operator two alternatives when no local
  requirement is active. Filter, repeat and table function return one, the unconstrained
  one; only project returns two. The propagated property carries the requirement's
  distribution without its sort, so it differs from a requirement that has one.
\<close>

theorem pass_through_alternatives_counterexample:
  "getRequiredLocalDesc exampleSortedGatherRequirement = None
   \<and> getOutputInputProps exampleEnv exampleSortedGatherRequirement PhysicalFilter exampleUnaryContext
      = Inr [(EMPTY, [EMPTY])]
   \<and> getOutputInputProps exampleEnv exampleSortedGatherRequirement PhysicalRepeat exampleUnaryContext
      = Inr [(EMPTY, [EMPTY])]
   \<and> getOutputInputProps exampleEnv exampleSortedGatherRequirement PhysicalTableFunction
        exampleUnaryContext
      = Inr [(EMPTY, [EMPTY])]
   \<and> length [(EMPTY, [EMPTY])] \<noteq> 2
   \<and> getOutputInputProps exampleEnv exampleSortedGatherRequirement PhysicalProject exampleUnaryContext
      = Inr [(\<lparr>distributionProperty = GATHER None, sortProperty = []\<rparr>,
              [\<lparr>distributionProperty = GATHER None, sortProperty = []\<rparr>]),
             (EMPTY, [EMPTY])]
   \<and> \<lparr>distributionProperty = GATHER None, sortProperty = []\<rparr> \<noteq> exampleSortedGatherRequirement"
  by (simp add: exampleSortedGatherRequirement_def getOutputInputProps_def passthrough_defs getRequiredLocalDesc_def
      distributeRequirements_def propertySetOfDistribution_def)

text \<open>
  C7 (amended). Project: when a local requirement is active the returned list is exactly
  the alternative that carries the requirement's distribution, with an empty sort, on the
  output and on the single child; otherwise it is that alternative followed by the
  unconstrained one (Any, no sort, on output and child). Repeat, filter and table function:
  when a local requirement is active the list is exactly the propagating alternative;
  otherwise it is exactly the unconstrained alternative.
\<close>

theorem pass_through_alternatives:
  "getOutputInputProps env requirements PhysicalProject context
     = Inr (if getRequiredLocalDesc requirements \<noteq> None
            then [(\<lparr>distributionProperty = distributionProperty requirements, sortProperty = []\<rparr>,
                   [\<lparr>distributionProperty = distributionProperty requirements, sortProperty = []\<rparr>])]
            else [(\<lparr>distributionProperty = distributionProperty requirements, sortProperty = []\<rparr>,
                   [\<lparr>distributionProperty = distributionProperty requirements, sortProperty = []\<rparr>]),
                  (EMPTY, [EMPTY])])
   \<and> (op = PhysicalRepeat \<or> op = PhysicalFilter \<or> op = PhysicalTableFunction \<longrightarrow>
        getOutputInputProps env requirements op context
          = Inr (if getRequiredLocalDesc requirements \<noteq> None
                 then [(\<lparr>distributionProperty = distributionProperty requirements, sortProperty = []\<rparr>,
                        [\<lparr>distributionProperty = distributionProperty requirements, sortProperty = []\<rparr>])]
                 else [(EMPTY, [EMPTY])]))"
  by (auto simp: getOutputInputProps_def passthrough_defs distributeRequirements_def
      propertySetOfDistribution_def)

text \<open>C7 on project and filter, with and without a local requirement.\<close>

theorem pass_through_alternatives_witness:
  "getRequiredLocalDesc exampleLocalRequirement \<noteq> None
   \<and> getOutputInputProps exampleEnv exampleLocalRequirement PhysicalProject exampleUnaryContext
       = Inr [(exampleLocalRequirement, [exampleLocalRequirement])]
   \<and> getOutputInputProps exampleEnv exampleLocalRequirement PhysicalFilter exampleUnaryContext
       = Inr [(exampleLocalRequirement, [exampleLocalRequirement])]
   \<and> getRequiredLocalDesc EMPTY = None
   \<and> getOutputInputProps exampleEnv EMPTY PhysicalProject exampleUnaryContext
       = Inr [(EMPTY, [EMPTY]), (EMPTY, [EMPTY])]
   \<and> getOutputInputProps exampleEnv EMPTY PhysicalFilter exampleUnaryContext
       = Inr [(EMPTY, [EMPTY])]"
proof -
  have h: "getRequiredLocalDesc exampleLocalRequirement \<noteq> None" "getRequiredLocalDesc EMPTY = None"
    by (simp_all add: exampleLocalRequirement_def EMPTY_def getRequiredLocalDesc_def)
  have r: "\<lparr>distributionProperty = distributionProperty exampleLocalRequirement, sortProperty = []\<rparr>
      = exampleLocalRequirement"
    "\<lparr>distributionProperty = distributionProperty EMPTY, sortProperty = []\<rparr> = EMPTY"
    by (simp_all add: exampleLocalRequirement_def EMPTY_def)
  from pass_through_alternatives [of exampleEnv exampleLocalRequirement exampleUnaryContext PhysicalFilter]
    pass_through_alternatives [of exampleEnv EMPTY exampleUnaryContext PhysicalFilter] h r
  show ?thesis by simp
qed

text \<open>
  C8. The two column lists that \<open>getJoinOnPredicatesColumns\<close> extracts have equal length,
  one pair per equality conjunct, so the \<open>checkState\<close> before the two
  \<open>Hash(ShuffleJoin)\<close> requirements passes in every derivation; on any two lists of
  different length that check fails fast, with \<open>IllegalStateException\<close> and no list,
  whatever the other inputs; and an exception of the whole join derivation always comes
  from one of the other three checks: the constructor of \<open>HashDistributionDesc\<close> on an
  empty shuffle column list, the \<open>checkState\<close> of \<open>tryColocate\<close>, or the constructor in
  \<open>tryBucketShuffle\<close>.
\<close>

theorem shuffle_join_column_count_check:
  "(case getJoinOnPredicatesColumns (equalOnPredicate node) leftChildColumns rightChildColumns of
      (leftOnPredicateColumns, rightOnPredicateColumns) \<Rightarrow>
         length leftOnPredicateColumns = length rightOnPredicateColumns)
   \<and> (length l \<noteq> length r \<longrightarrow>
        shuffleJoinStep env requirements node context before l r = Inl IllegalStateException)
   \<and> (\<forall>e. getOutputInputProps env requirements (PhysicalHashJoin node) context = Inl e \<longrightarrow>
        newHashDistributionDesc (map leftColumn (equalOnPredicate node)) SHUFFLE_JOIN = Inl e
        \<or> tryColocate env (map leftColumn (equalOnPredicate node))
             (map rightColumn (equalOnPredicate node)) = Inl e
        \<or> tryBucketShuffle env node (map leftColumn (equalOnPredicate node))
             (map rightColumn (equalOnPredicate node)) = Inl e)"
proof -
  have "case getJoinOnPredicatesColumns (equalOnPredicate node) leftChildColumns rightChildColumns of
      (leftOnPredicateColumns, rightOnPredicateColumns) \<Rightarrow>
         length leftOnPredicateColumns = length rightOnPredicateColumns"
    by (simp add: getJoinOnPredicatesColumns_def)
  moreover have "length l \<noteq> length r \<longrightarrow>
        shuffleJoinStep env requirements node context before l r = Inl IllegalStateException"
    by (simp add: shuffleJoinStep_def)
  moreover have "\<forall>e. getOutputInputProps env requirements (PhysicalHashJoin node) context = Inl e \<longrightarrow>
        newHashDistributionDesc (map leftColumn (equalOnPredicate node)) SHUFFLE_JOIN = Inl e
        \<or> tryColocate env (map leftColumn (equalOnPredicate node))
             (map rightColumn (equalOnPredicate node)) = Inl e
        \<or> tryBucketShuffle env node (map leftColumn (equalOnPredicate node))
             (map rightColumn (equalOnPredicate node)) = Inl e"
    using visitPhysicalHashJoin_error [of env requirements node "context"]
    by (auto simp: getOutputInputProps_def)
  ultimately show ?thesis by blast
qed

text \<open>C8 on the example join, with lists of length 1 and 0 for the failing check.\<close>

theorem shuffle_join_column_count_check_witness:
  "length [1::int] \<noteq> length ([]::int list)
   \<and> shuffleJoinStep exampleEnvWithScan EMPTY exampleInnerJoin exampleJoinContext [] [1] []
       = Inl IllegalStateException
   \<and> getJoinOnPredicatesColumns (equalOnPredicate exampleInnerJoin) {1, 2} {10} = ([1], [10])
   \<and> (\<exists>alts. getOutputInputProps exampleEnvWithScan EMPTY (PhysicalHashJoin exampleInnerJoin)
         exampleJoinContext = Inr alts)"
proof -
  have r: "\<exists>alts. getOutputInputProps exampleEnvWithScan EMPTY (PhysicalHashJoin exampleInnerJoin)
         exampleJoinContext = Inr alts"
    by (simp add: exampleEnv_def exampleScan_def exampleEnvWithScan_def childWithoutLimit_def
      exampleJoinContext_def exampleInnerJoin_def model_defs)
  have g: "getJoinOnPredicatesColumns (equalOnPredicate exampleInnerJoin) {1, 2} {10} = ([1], [10])"
    by (simp add: exampleInnerJoin_def getJoinOnPredicatesColumns_def)
  from shuffle_join_column_count_check [of exampleInnerJoin "{1, 2}" "{10}" "[1]" "[]"
      exampleEnvWithScan EMPTY exampleJoinContext "[]"] r g
  show ?thesis by simp
qed

text \<open>
  C9. Each alternative of a returned list has as many child requirements as the operator
  has children: 2 for a hash join; 1 for aggregate, top-N, window, assert-one-row, project,
  filter, repeat and table function; 0 for the scans and for values; the arity of the
  expression for union, except and intersect. (An operator without a visitor returns no
  alternative.)
\<close>

theorem child_requirements_arity:
  assumes "getOutputInputProps env requirements op context = Inr alts" and "alt \<in> set alts"
  shows "length (snd alt) =
    (case op of
       PhysicalHashJoin node \<Rightarrow> 2
     | PhysicalHashAggregate node \<Rightarrow> 1
     | PhysicalTopN node \<Rightarrow> 1
     | PhysicalAnalytic node \<Rightarrow> 1
     | PhysicalAssertOneRow \<Rightarrow> 1
     | PhysicalProject \<Rightarrow> 1
     | PhysicalFilter \<Rightarrow> 1
     | PhysicalRepeat \<Rightarrow> 1
     | PhysicalTableFunction \<Rightarrow> 1
     | PhysicalOlapScan node \<Rightarrow> 0
     | PhysicalHiveScan \<Rightarrow> 0
     | PhysicalSchemaScan \<Rightarrow> 0
     | PhysicalMysqlScan \<Rightarrow> 0
     | PhysicalEsScan \<Rightarrow> 0
     | PhysicalValues \<Rightarrow> 0
     | PhysicalUnion \<Rightarrow> arity context
     | PhysicalExcept \<Rightarrow> arity context
     | PhysicalIntersect \<Rightarrow> arity context
     | OtherOperator \<Rightarrow> 0)"
proof (cases op)
  case (PhysicalHashJoin node)
  with assms visitPhysicalHashJoin_shape [of env requirements node "context" alts alt]
  show ?thesis by (auto simp: getOutputInputProps_def)
next
  case (PhysicalHashAggregate node)
  with assms visitPhysicalHashAggregate_children [of env requirements node "context" alts alt]
  show ?thesis by (auto simp: getOutputInputProps_def)
next
  case (PhysicalAnalytic node)
  with assms visitPhysicalAnalytic_children [of requirements node alts alt]
  show ?thesis by (auto simp: getOutputInputProps_def)
next
  case (PhysicalOlapScan node)
  with assms show ?thesis
    by (auto simp: getOutputInputProps_def leaf_defs Let_def split: option.splits if_splits)
next
  case (PhysicalTopN node)
  with assms show ?thesis
    by (auto simp: getOutputInputProps_def leaf_defs Let_def split: if_splits)
next
  case PhysicalUnion
  with assms processSetOperationChildProperty_children [of alt requirements "context"]
  show ?thesis by (auto simp: getOutputInputProps_def)
next
  case PhysicalExcept
  with assms processSetOperationChildProperty_children [of alt requirements "context"]
  show ?thesis by (auto simp: getOutputInputProps_def)
next
  case PhysicalIntersect
  with assms processSetOperationChildProperty_children [of alt requirements "context"]
  show ?thesis by (auto simp: getOutputInputProps_def)
qed (use assms in \<open>auto simp: getOutputInputProps_def leaf_defs passthrough_defs Let_def split: if_splits\<close>)

text \<open>C9 on a union of two children, the left one with limit 10.\<close>

theorem child_requirements_arity_witness:
  "getOutputInputProps exampleEnv EMPTY PhysicalUnion exampleJoinContextLeftLimit
     = Inr [(EMPTY, [\<lparr>distributionProperty = GATHER (Some 10), sortProperty = []\<rparr>, EMPTY])]
   \<and> arity exampleJoinContextLeftLimit = 2
   \<and> length (snd (EMPTY, [\<lparr>distributionProperty = GATHER (Some 10), sortProperty = []\<rparr>, EMPTY]))
       = arity exampleJoinContextLeftLimit"
proof -
  let ?A = "(EMPTY, [\<lparr>distributionProperty = GATHER (Some 10), sortProperty = []\<rparr>, EMPTY])"
  have e: "getOutputInputProps exampleEnv EMPTY PhysicalUnion exampleJoinContextLeftLimit = Inr [?A]"
    by (simp add: exampleEnv_def exampleJoinContext_def exampleJoinContextLeftLimit_def
      childWithoutLimit_def childWithLimit10_def getOutputInputProps_def processSetOperationChildProperty_def
        getRequiredLocalDesc_def EMPTY_def createLimitGatherProperty_def propertySetOf_def
        createGatherDistributionSpecLimit_def upt_rec)
  have m: "?A \<in> set [?A]" by simp
  have a: "arity exampleJoinContextLeftLimit = 2" by (simp add: exampleEnv_def exampleJoinContext_def exampleJoinContextLeftLimit_def
      childWithoutLimit_def childWithLimit10_def)
  from child_requirements_arity [OF e m] e a show ?thesis by simp
qed

text \<open>
  C10. For every operator other than a window, every child requirement of every returned
  alternative has an empty sort property; the property that pass-through operators
  propagate, \<open>distributeRequirements\<close>, is the requirement's distribution with an empty
  sort.
\<close>

theorem child_requirements_unsorted:
  assumes "getOutputInputProps env requirements op context = Inr alts" and "alt \<in> set alts"
    and "child \<in> set (snd alt)" and "\<forall>node. op \<noteq> PhysicalAnalytic node"
  shows "sortProperty child = []
     \<and> distributeRequirements requirements
         = \<lparr>distributionProperty = distributionProperty requirements, sortProperty = []\<rparr>"
proof -
  have "sortProperty child = []"
  proof (cases op)
    case (PhysicalHashJoin node)
    with assms visitPhysicalHashJoin_shape [of env requirements node "context" alts alt]
    show ?thesis by (auto simp: getOutputInputProps_def)
  next
    case (PhysicalHashAggregate node)
    with assms visitPhysicalHashAggregate_children [of env requirements node "context" alts alt]
    show ?thesis by (auto simp: getOutputInputProps_def)
  next
    case (PhysicalAnalytic node)
    with assms(4) show ?thesis by simp
  next
    case (PhysicalOlapScan node)
    with assms show ?thesis
      by (auto simp: getOutputInputProps_def leaf_defs Let_def split: option.splits if_splits)
  next
    case (PhysicalTopN node)
    with assms show ?thesis
      by (auto simp: getOutputInputProps_def leaf_defs Let_def EMPTY_def
          createLimitGatherProperty_def propertySetOf_def split: if_splits)
  next
    case PhysicalUnion
    with assms processSetOperationChildProperty_children [of alt requirements "context"]
    show ?thesis by (auto simp: getOutputInputProps_def)
  next
    case PhysicalExcept
    with assms processSetOperationChildProperty_children [of alt requirements "context"]
    show ?thesis by (auto simp: getOutputInputProps_def)
  next
    case PhysicalIntersect
    with assms processSetOperationChildProperty_children [of alt requirements "context"]
    show ?thesis by (auto simp: getOutputInputProps_def)
  qed (use assms in \<open>auto simp: getOutputInputProps_def leaf_defs passthrough_defs Let_def EMPTY_def
        propertySetOfDistribution_def createGatherDistributionSpec_def split: if_splits\<close>)
  then show ?thesis
    by (simp add: distributeRequirements_def propertySetOfDistribution_def)
qed

text \<open>C10 on a project under a requirement sorted by column 1: the child is asked for no sort.\<close>

theorem child_requirements_unsorted_witness:
  "getOutputInputProps exampleEnv exampleSortedGatherRequirement PhysicalProject exampleUnaryContext
     = Inr [(\<lparr>distributionProperty = GATHER None, sortProperty = []\<rparr>,
             [\<lparr>distributionProperty = GATHER None, sortProperty = []\<rparr>]),
            (EMPTY, [EMPTY])]
   \<and> (\<forall>node. PhysicalProject \<noteq> PhysicalAnalytic node)
   \<and> sortProperty exampleSortedGatherRequirement = [Ordering 1 True True]
   \<and> sortProperty \<lparr>distributionProperty = GATHER None, sortProperty = []\<rparr> = []
   \<and> distributeRequirements exampleSortedGatherRequirement
       = \<lparr>distributionProperty = GATHER None, sortProperty = []\<rparr>"
proof -
  let ?P = "(\<lparr>distributionProperty = GATHER None, sortProperty = []\<rparr>,
             [\<lparr>distributionProperty = GATHER None, sortProperty = []\<rparr>])"
  have e: "getOutputInputProps exampleEnv exampleSortedGatherRequirement PhysicalProject
      exampleUnaryContext = Inr [?P, (EMPTY, [EMPTY])]"
    by (simp add: exampleSortedGatherRequirement_def getOutputInputProps_def passthrough_defs getRequiredLocalDesc_def
      distributeRequirements_def propertySetOfDistribution_def)
  have m: "?P \<in> set [?P, (EMPTY, [EMPTY])]" by simp
  have c: "\<lparr>distributionProperty = GATHER None, sortProperty = []\<rparr> \<in> set (snd ?P)" by simp
  have n: "\<forall>node. PhysicalProject \<noteq> PhysicalAnalytic node" by simp
  have s: "sortProperty exampleSortedGatherRequirement = [Ordering 1 True True]"
    "distributionProperty exampleSortedGatherRequirement = GATHER None"
    by (simp_all add: exampleSortedGatherRequirement_def)
  from child_requirements_unsorted [OF e m c n] e n s show ?thesis by simp
qed

end
